theory Spec2Isabelle
  imports Complex_Main
begin

section \<open>The query engine's values\<close>

text \<open>
  Most of \<^verbatim>\<open>pipeline.py\<close> is SQL text handed to the embedded query engine.  The
  embedding gives the SQL fragment that the queries use a direct functional reading:
  a nullable column is an \<open>option\<close> (\<open>None\<close> is NULL), a condition is three-valued
  (\<open>bool option\<close>), and a \<^verbatim>\<open>WHERE\<close>, \<^verbatim>\<open>HAVING\<close> or \<^verbatim>\<open>CASE WHEN\<close> takes a branch only
  when its condition is TRUE.  DOUBLE and DECIMAL columns are exact rationals: rounding
  is not modelled.
\<close>

type_synonym sql_bool = "bool option"
type_synonym sql_num = "rat option"

definition is_true :: "sql_bool \<Rightarrow> bool" where
  "is_true b = (b = Some True)"

definition sql_and :: "sql_bool \<Rightarrow> sql_bool \<Rightarrow> sql_bool" where
  "sql_and a b =
     (if a = Some False \<or> b = Some False then Some False
      else if a = Some True \<and> b = Some True then Some True
      else None)"

definition sql_or :: "sql_bool \<Rightarrow> sql_bool \<Rightarrow> sql_bool" where
  "sql_or a b =
     (if a = Some True \<or> b = Some True then Some True
      else if a = Some False \<and> b = Some False then Some False
      else None)"

definition sql_not :: "sql_bool \<Rightarrow> sql_bool" where
  "sql_not a = map_option Not a"

definition sql_lt :: "sql_num \<Rightarrow> sql_num \<Rightarrow> sql_bool" where
  "sql_lt a b = (case (a, b) of (Some x, Some y) \<Rightarrow> Some (x < y) | _ \<Rightarrow> None)"

definition sql_le :: "sql_num \<Rightarrow> sql_num \<Rightarrow> sql_bool" where
  "sql_le a b = (case (a, b) of (Some x, Some y) \<Rightarrow> Some (x \<le> y) | _ \<Rightarrow> None)"

definition sql_gt :: "sql_num \<Rightarrow> sql_num \<Rightarrow> sql_bool" where
  "sql_gt a b = sql_lt b a"

definition sql_eq :: "sql_num \<Rightarrow> sql_num \<Rightarrow> sql_bool" where
  "sql_eq a b = (case (a, b) of (Some x, Some y) \<Rightarrow> Some (x = y) | _ \<Rightarrow> None)"

definition sql_sub :: "sql_num \<Rightarrow> sql_num \<Rightarrow> sql_num" where
  "sql_sub a b = (case (a, b) of (Some x, Some y) \<Rightarrow> Some (x - y) | _ \<Rightarrow> None)"

text \<open>The engine's \<^verbatim>\<open>/\<close>: NULL when an operand is NULL, and NULL when the divisor is 0.\<close>

definition sql_div :: "sql_num \<Rightarrow> sql_num \<Rightarrow> sql_num" where
  "sql_div a b =
     (case (a, b) of
        (Some x, Some y) \<Rightarrow> if y = 0 then None else Some (x / y)
      | _ \<Rightarrow> None)"

text \<open>\<^verbatim>\<open>GREATEST\<close> skips a NULL argument; it is NULL only when both are.\<close>

definition sql_greatest :: "sql_num \<Rightarrow> sql_num \<Rightarrow> sql_num" where
  "sql_greatest a b =
     (case (a, b) of
        (Some x, Some y) \<Rightarrow> Some (max x y)
      | (Some x, None) \<Rightarrow> Some x
      | (None, y) \<Rightarrow> y)"

text \<open>\<^verbatim>\<open>x IN (c1, ..., cn)\<close> against a list of constants, none of them NULL.\<close>

definition sql_in :: "int option \<Rightarrow> int list \<Rightarrow> sql_bool" where
  "sql_in x cs = map_option (\<lambda>v. v \<in> set cs) x"

definition num :: "int option \<Rightarrow> sql_num" where
  "num x = map_option of_int x"

subsection \<open>Timestamps\<close>

text \<open>
  A TIMESTAMP is its civil fields, to the second.  \<open>days_from_civil\<close> is the day number
  since 1970-01-01 in the proleptic Gregorian calendar; \<^verbatim>\<open>date_diff('minute', a, b)\<close>
  counts the minute boundaries between \<open>a\<close> and \<open>b\<close>, so it is an integer and is
  negative when \<open>b\<close> is before \<open>a\<close>.
\<close>

datatype timestamp =
  Timestamp (ts_year: int) (ts_month: int) (ts_day: int)
            (ts_hour: int) (ts_minute: int) (ts_second: int)

definition days_from_civil :: "int \<Rightarrow> int \<Rightarrow> int \<Rightarrow> int" where
  "days_from_civil y m d =
     (let y' = (if m \<le> 2 then y - 1 else y);
          era = y' div 400;
          yoe = y' - era * 400;
          doy = (153 * (if m > 2 then m - 3 else m + 9) + 2) div 5 + d - 1;
          doe = yoe * 365 + yoe div 4 - yoe div 100 + doy
      in era * 146097 + doe - 719468)"

definition epoch_seconds :: "timestamp \<Rightarrow> int" where
  "epoch_seconds t =
     days_from_civil (ts_year t) (ts_month t) (ts_day t) * 86400
       + ts_hour t * 3600 + ts_minute t * 60 + ts_second t"

definition date_diff_minute :: "timestamp option \<Rightarrow> timestamp option \<Rightarrow> int option" where
  "date_diff_minute a b =
     (case (a, b) of
        (Some s, Some e) \<Rightarrow> Some (epoch_seconds e div 60 - epoch_seconds s div 60)
      | _ \<Rightarrow> None)"

definition ts_ge :: "timestamp option \<Rightarrow> timestamp \<Rightarrow> sql_bool" where
  "ts_ge a c = map_option (\<lambda>t. epoch_seconds c \<le> epoch_seconds t) a"

definition ts_lt :: "timestamp option \<Rightarrow> timestamp \<Rightarrow> sql_bool" where
  "ts_lt a c = map_option (\<lambda>t. epoch_seconds t < epoch_seconds c) a"

definition midnight :: "int \<Rightarrow> int \<Rightarrow> int \<Rightarrow> timestamp" where
  "midnight y m d = Timestamp y m d 0 0 0"

definition sql_month :: "timestamp option \<Rightarrow> int option" where
  "sql_month a = map_option ts_month a"

definition sql_hour :: "timestamp option \<Rightarrow> int option" where
  "sql_hour a = map_option ts_hour a"

text \<open>\<^verbatim>\<open>dayofweek\<close>: Sunday is 0; 1970-01-01 was a Thursday.\<close>

definition sql_dayofweek :: "timestamp option \<Rightarrow> int option" where
  "sql_dayofweek a =
     map_option (\<lambda>t. (days_from_civil (ts_year t) (ts_month t) (ts_day t) + 4) mod 7) a"

text \<open>\<^verbatim>\<open>CAST(t AS DATE)\<close>: year, month, day.\<close>

type_synonym date = "int \<times> int \<times> int"

definition sql_date :: "timestamp option \<Rightarrow> date option" where
  "sql_date a = map_option (\<lambda>t. (ts_year t, ts_month t, ts_day t)) a"

text \<open>
  \<^verbatim>\<open>t + INTERVAL n YEAR\<close>: the year moves, and a 29 February that lands in a year
  without one becomes the 28th.
\<close>

definition leap_year :: "int \<Rightarrow> bool" where
  "leap_year y = (if y mod 100 = 0 then y mod 400 = 0 else y mod 4 = 0)"

definition add_years :: "int \<Rightarrow> timestamp option \<Rightarrow> timestamp option" where
  "add_years n a =
     map_option (\<lambda>t.
        let y = ts_year t + n;
            d = (if ts_month t = 2 \<and> ts_day t = 29 \<and> \<not> leap_year y then 28 else ts_day t)
        in Timestamp y (ts_month t) d (ts_hour t) (ts_minute t) (ts_second t)) a"

subsection \<open>Grouping and ordering\<close>

text \<open>
  \<^verbatim>\<open>GROUP BY\<close> puts rows with equal keys together, NULL keys in one group of their
  own.  The engine fixes no order of groups and no order among ties of an
  \<^verbatim>\<open>ORDER BY\<close>; the model takes groups by first appearance and sorts stably.
\<close>

fun keys_of :: "'k list \<Rightarrow> 'k list" where
  "keys_of [] = []"
| "keys_of (k # ks) = k # filter (\<lambda>k'. k' \<noteq> k) (keys_of ks)"

definition group_by :: "('a \<Rightarrow> 'k) \<Rightarrow> 'a list \<Rightarrow> ('k \<times> 'a list) list" where
  "group_by key rows =
     map (\<lambda>k. (k, filter (\<lambda>r. key r = k) rows)) (keys_of (map key rows))"

definition order_by_desc :: "('a \<Rightarrow> 'o::linorder) \<Rightarrow> 'a list \<Rightarrow> 'a list" where
  "order_by_desc f rows = rev (sort_key f (rev rows))"

definition order_by_asc :: "('a \<Rightarrow> 'o::linorder) \<Rightarrow> 'a list \<Rightarrow> 'a list" where
  "order_by_asc f rows = sort_key f rows"

text \<open>\<^verbatim>\<open>AVG\<close> skips NULLs and is NULL when nothing is left.\<close>

definition sql_avg :: "sql_num list \<Rightarrow> sql_num" where
  "sql_avg xs =
     (let vs = List.map_filter id xs
      in if vs = [] then None else Some (sum_list vs / of_nat (length vs)))"

section \<open>Configuration\<close>

datatype taxi = yellow | green

definition TAXI_TYPES :: "taxi list" where
  "TAXI_TYPES = [yellow, green]"

definition CONGESTION_ZONE_IDS :: "int list" where
  "CONGESTION_ZONE_IDS =
    [4, 12, 13, 24, 41, 42, 43, 45, 48, 50, 68, 74, 75, 87, 88, 90, 100, 103,
     104, 105, 107, 113, 114, 116, 120, 125, 127, 128, 137, 140, 142, 143, 144,
     148, 151, 152, 153, 158, 161, 162, 163, 164, 166, 170, 186, 194, 202, 209,
     211, 212, 213, 214, 216, 217, 224, 229, 230, 231, 232, 233, 234, 235, 236,
     237, 238, 239, 240, 241, 242, 243, 244, 245, 246, 249, 250]"

definition GHOST_SPEED_LIMIT :: rat where
  "GHOST_SPEED_LIMIT = 65"

definition GHOST_I_TELEPORTER_TIME :: rat where
  "GHOST_I_TELEPORTER_TIME = 1"

definition GHOST_I_TELEPORTER_FARE :: rat where
  "GHOST_I_TELEPORTER_FARE = 20"

definition GHOST_I_STATIONARY_DIST :: rat where
  "GHOST_I_STATIONARY_DIST = 0"

definition start_date :: timestamp where
  "start_date = midnight 2025 1 5"

section \<open>Trip rows\<close>

text \<open>
  A row of a monthly parquet file, with the columns the pipeline reads.  The yellow
  files name the two time columns \<^verbatim>\<open>tpep_...\<close> and the green files \<^verbatim>\<open>lpep_...\<close>; the
  record has one field for either.  Every column may be NULL.
\<close>

record raw_trip =
  raw_VendorID :: "int option"
  pickup_datetime :: "timestamp option"
  dropoff_datetime :: "timestamp option"
  PULocationID :: "int option"
  DOLocationID :: "int option"
  raw_trip_distance :: sql_num
  fare_amount :: sql_num
  raw_total_amount :: sql_num
  raw_congestion_surcharge :: sql_num

text \<open>A row of the view \<^verbatim>\<open>all_trips_2025\<close>.\<close>

record trip =
  VendorID :: "int option"
  taxi_type :: taxi
  pickup_time :: "timestamp option"
  dropoff_time :: "timestamp option"
  pickup_loc :: "int option"
  dropoff_loc :: "int option"
  trip_distance :: sql_num
  fare :: sql_num
  total_amount :: sql_num
  congestion_surcharge :: sql_num

definition view_row :: "taxi \<Rightarrow> raw_trip \<Rightarrow> trip" where
  "view_row t r =
     \<lparr> VendorID = raw_VendorID r,
       taxi_type = t,
       pickup_time = pickup_datetime r,
       dropoff_time = dropoff_datetime r,
       pickup_loc = PULocationID r,
       dropoff_loc = DOLocationID r,
       trip_distance = raw_trip_distance r,
       fare = fare_amount r,
       total_amount = raw_total_amount r,
       congestion_surcharge =
         (case raw_congestion_surcharge r of None \<Rightarrow> Some 0 | Some v \<Rightarrow> Some v) \<rparr>"

section \<open>Phase 2: the ghost-trip audit query\<close>

datatype fraud_flag = Impossible_Physics | Teleporter | Stationary_Ride | OK

record flagged_trip =
  row :: trip
  duration_min :: "int option"
  speed_mph :: sql_num
  fraud_flag :: fraud_flag

text \<open>\<^verbatim>\<open>date_diff('minute', pickup_time, dropoff_time)\<close>\<close>

definition duration_expr :: "trip \<Rightarrow> int option" where
  "duration_expr r = date_diff_minute (pickup_time r) (dropoff_time r)"

text \<open>
  \<^verbatim>\<open>CASE WHEN duration <= 0 THEN 0 ELSE trip_distance / (duration / 60.0) END\<close>
\<close>

definition speed_mph_expr :: "trip \<Rightarrow> sql_num" where
  "speed_mph_expr r =
     (if is_true (sql_le (num (duration_expr r)) (Some 0)) then Some 0
      else sql_div (trip_distance r) (sql_div (num (duration_expr r)) (Some 60)))"

text \<open>
  \<^verbatim>\<open>trip_distance / (GREATEST(duration, 0.1) / 60.0)\<close>, the expression that the
  \<^verbatim>\<open>WHERE\<close> clause and the first \<^verbatim>\<open>WHEN\<close> both compare with the speed limit.
\<close>

definition speed_filter_mph :: "trip \<Rightarrow> sql_num" where
  "speed_filter_mph r =
     sql_div (trip_distance r)
       (sql_div (sql_greatest (num (duration_expr r)) (Some (1 / 10))) (Some 60))"

definition impossible_physics :: "trip \<Rightarrow> sql_bool" where
  "impossible_physics r = sql_gt (speed_filter_mph r) (Some GHOST_SPEED_LIMIT)"

definition teleporter :: "trip \<Rightarrow> sql_bool" where
  "teleporter r =
     sql_and (sql_lt (num (duration_expr r)) (Some GHOST_I_TELEPORTER_TIME))
             (sql_gt (fare r) (Some GHOST_I_TELEPORTER_FARE))"

definition stationary_ride :: "trip \<Rightarrow> sql_bool" where
  "stationary_ride r =
     sql_and (sql_eq (trip_distance r) (Some GHOST_I_STATIONARY_DIST))
             (sql_gt (fare r) (Some 0))"

definition fraud_flag_expr :: "trip \<Rightarrow> fraud_flag" where
  "fraud_flag_expr r =
     (if is_true (impossible_physics r) then Impossible_Physics
      else if is_true (teleporter r) then Teleporter
      else if is_true (stationary_ride r) then Stationary_Ride
      else OK)"

definition audit_where :: "trip \<Rightarrow> sql_bool" where
  "audit_where r = sql_or (sql_or (impossible_physics r) (teleporter r)) (stationary_ride r)"

definition audit_select :: "trip \<Rightarrow> flagged_trip" where
  "audit_select r =
     \<lparr> row = r,
       duration_min = duration_expr r,
       speed_mph = speed_mph_expr r,
       fraud_flag = fraud_flag_expr r \<rparr>"

definition audit_query :: "trip list \<Rightarrow> flagged_trip list" where
  "audit_query trips = map audit_select (filter (\<lambda>r. is_true (audit_where r)) trips)"

text \<open>
  \<^verbatim>\<open>SELECT VendorID, COUNT(*) ... GROUP BY VendorID ORDER BY ghost_count DESC LIMIT 5\<close>
\<close>

definition vendor_query :: "flagged_trip list \<Rightarrow> (int option \<times> nat) list" where
  "vendor_query fs =
     take 5 (order_by_desc snd
       (map (\<lambda>(v, g). (v, length g)) (group_by (\<lambda>f. VendorID (row f)) fs)))"

section \<open>Files, connection and console\<close>

text \<open>
  Everything the pipeline reads or writes is a field of \<open>world\<close>:
  \<^item> \<open>data_files (year, taxi, month)\<close> is the monthly file
    \<^verbatim>\<open>DATA_DIR/<year>/<taxi>/<taxi>_tripdata_<year>-<mm>.parquet\<close>, absent when \<open>None\<close>;
    a file that is there may still be unreadable for the engine;
  \<^item> \<open>weather_cache\<close> is \<^verbatim>\<open>CACHE_DIR/weather_2025.csv\<close> and \<open>weather_api\<close> is what the
    precipitation archive answers (\<open>None\<close>: the request fails);
  \<^item> one field for each file of \<^verbatim>\<open>OUTPUT_DIR\<close>;
  \<^item> \<open>view_defined\<close> is the catalog of the connection: whether \<^verbatim>\<open>all_trips_2025\<close> exists;
  \<^item> \<open>console\<close> is what has been printed, one entry for each \<^verbatim>\<open>print\<close>, with the fixed
    text of the message (interpolated values and line-break escapes are left out);
  \<^item> \<open>random_source\<close> is the sequence of values that \<^verbatim>\<open>random()\<close> returns and
    \<open>random_draws\<close> counts how many have been taken.
\<close>

datatype exn = IOError | CatalogError | InvalidInputError | FileNotFoundError
  | ZeroDivisionError | ValueError

datatype parquet = Unreadable | Table "raw_trip list"

type_synonym data_dir = "int \<times> taxi \<times> int \<Rightarrow> parquet option"

record leakage_row =
  lk_pickup_loc :: "int option"
  total_trips :: nat
  compliant_trips :: nat
  compliance_rate :: sql_num
  leakage_rate :: sql_num

record stats =
  revenue_2025 :: rat
  q1_2024_vol :: int
  q1_2025_vol :: int
  q1_pct_change :: rat
  ghost_count :: nat
  suspicious_vendors :: "(int option \<times> nat) list"

record velocity_row =
  dow :: "int option"
  hour :: "int option"
  avg_speed :: sql_num

record border_row =
  location_id :: "int option"
  count_2024 :: int
  count_2025 :: int
  diff :: int
  pct_change :: sql_num

record tips_row =
  month :: "int option"
  avg_surcharge :: sql_num
  avg_tip_pct :: sql_num

record world =
  data_files :: data_dir
  weather_cache :: "(date \<times> sql_num) list option"
  weather_api :: "(date \<times> sql_num) list option"
  ghost_trip_audit_csv :: "flagged_trip list option"
  leakage_analysis_csv :: "leakage_row list option"
  impact_stats_json :: "stats option"
  velocity_csv :: "int \<Rightarrow> velocity_row list option"
  border_effect_csv :: "border_row list option"
  daily_trips_2025_csv :: "(date option \<times> nat) list option"
  tips_economics_csv :: "tips_row list option"
  elasticity_txt :: "(real \<times> real) option"
  view_defined :: bool
  console :: "string list"
  random_source :: "nat \<Rightarrow> rat"
  random_draws :: nat

definition print :: "string \<Rightarrow> world \<Rightarrow> world" where
  "print msg w = w\<lparr>console := console w @ [msg]\<rparr>"

text \<open>
  \<^verbatim>\<open>read_parquet('<DATA_DIR>/<year>/<taxi>/*.parquet', union_by_name=True)\<close>: the files of
  the directory in name order, which is month order.  The engine raises when the
  pattern matches no file and when a matched file cannot be read.
\<close>

definition glob_parquet :: "data_dir \<Rightarrow> int \<Rightarrow> taxi \<Rightarrow> parquet list" where
  "glob_parquet dir y t = List.map_filter (\<lambda>m. dir (y, t, m)) [1..12]"

fun rows_of :: "parquet \<Rightarrow> raw_trip list" where
  "rows_of Unreadable = []"
| "rows_of (Table rs) = rs"

definition read_parquet :: "data_dir \<Rightarrow> int \<Rightarrow> taxi \<Rightarrow> exn + raw_trip list" where
  "read_parquet dir y t =
     (let fs = glob_parquet dir y t
      in if fs = [] then Inl IOError
         else if Unreadable \<in> set fs then Inl InvalidInputError
         else Inr (concat (map rows_of fs)))"

text \<open>The \<^verbatim>\<open>SELECT ... UNION ALL SELECT ...\<close> that \<^verbatim>\<open>query_view\<close> names \<^verbatim>\<open>all_trips_2025\<close>.\<close>

definition query_view :: "data_dir \<Rightarrow> exn + trip list" where
  "query_view dir =
     (case read_parquet dir 2025 yellow of
        Inl e \<Rightarrow> Inl e
      | Inr ys \<Rightarrow>
          (case read_parquet dir 2025 green of
             Inl e \<Rightarrow> Inl e
           | Inr gs \<Rightarrow> Inr (map (view_row yellow) ys @ map (view_row green) gs)))"

text \<open>A query \<^verbatim>\<open>FROM all_trips_2025\<close>: a catalog error when the view was never created.\<close>

definition all_trips_2025 :: "world \<Rightarrow> exn + trip list" where
  "all_trips_2025 w = (if view_defined w then query_view (data_files w) else Inl CatalogError)"

section \<open>Phase 1: imputation of December 2025\<close>

text \<open>
  \<^verbatim>\<open>WHERE random() < p\<close> over a file: one draw for each row, in row order.
\<close>

definition sample_rows :: "rat \<Rightarrow> 'a list \<Rightarrow> world \<Rightarrow> 'a list \<times> world" where
  "sample_rows p rs w =
     (map snd (filter (\<lambda>(i, r). random_source w (random_draws w + i) < p) (enumerate 0 rs)),
      w\<lparr>random_draws := random_draws w + length rs\<rparr>)"

definition shift_years :: "int \<Rightarrow> raw_trip \<Rightarrow> raw_trip" where
  "shift_years n r =
     r\<lparr>pickup_datetime := add_years n (pickup_datetime r),
       dropoff_datetime := add_years n (dropoff_datetime r)\<rparr>"

text \<open>The \<^verbatim>\<open>COPY (... UNION ALL ...) TO target\<close> of \<^verbatim>\<open>impute_december_data\<close>.\<close>

definition impute_query :: "taxi \<Rightarrow> world \<Rightarrow> (exn + unit) \<times> world" where
  "impute_query t w =
     (case (data_files w (2023, t, 12), data_files w (2024, t, 12)) of
        (Some (Table r23), Some (Table r24)) \<Rightarrow>
          (let (s23, w1) = sample_rows (3 / 10) r23 w;
               (s24, w2) = sample_rows (7 / 10) r24 w1
           in (Inr (),
               w2\<lparr>data_files := (data_files w2)
                     ((2025, t, 12) := Some (Table (map (shift_years 2) s23 @ map (shift_years 1) s24)))\<rparr>))
      | (None, _) \<Rightarrow> (Inl IOError, w)
      | (_, None) \<Rightarrow> (Inl IOError, w)
      | _ \<Rightarrow> (Inl InvalidInputError, w))"

text \<open>The body of the loop \<^verbatim>\<open>for taxi in TAXI_TYPES\<close>.\<close>

definition impute_taxi :: "taxi \<Rightarrow> world \<Rightarrow> world" where
  "impute_taxi t w =
     (if data_files w (2025, t, 12) \<noteq> None then print ''  -> target already exists.'' w
      else
        let w1 = print ''  -> Generating imputed data for Dec 2025...'' w
        in if data_files w1 (2023, t, 12) = None \<or> data_files w1 (2024, t, 12) = None
           then print ''  -> WARNING: Missing source data for imputation. Skipping'' w1
           else
             let w2 = print ''     - Sampling 2023 (30%) & 2024 (70%)...'' w1
             in (case impute_query t w2 of
                   (Inr _, w3) \<Rightarrow> print ''  -> Imputed file created'' w3
                 | (Inl e, w3) \<Rightarrow> print ''  -> Error imputing data'' w3))"

definition impute_december_data :: "world \<Rightarrow> world" where
  "impute_december_data w = fold impute_taxi TAXI_TYPES w"

text \<open>
  \<^verbatim>\<open>ensure_data_available\<close> first calls \<^verbatim>\<open>download_file\<close> for the zone table and each monthly
  file.  The downloads are the work of the remote archive: \<open>data_files\<close> of the world
  given to this function is the directory as the downloads have left it.
\<close>

definition ensure_data_available :: "world \<Rightarrow> world" where
  "ensure_data_available w =
     impute_december_data
       (print ''  -> Checking for December 2025 Data (Imputation Step)...''
         (print ''[PHASE 1] Checking Data Availability...'' w))"

section \<open>Phase 2: \<^verbatim>\<open>run_ghost_trip_audit\<close>\<close>

definition run_ghost_trip_audit ::
  "world \<Rightarrow> (exn + nat \<times> (int option \<times> nat) list) \<times> world" where
  "run_ghost_trip_audit w =
     (let w1 = print ''[PHASE 2] Auditing for Ghost Trips...'' w
      in case query_view (data_files w1) of
           Inl e \<Rightarrow> (Inr (0, []), print ''  -> Error creating view. Are files downloaded?'' w1)
         | Inr _ \<Rightarrow>
             (let w2 = print ''  -> Executing Audit Query...'' (w1\<lparr>view_defined := True\<rparr>)
              in case all_trips_2025 w2 of
                   Inl e \<Rightarrow> (Inl e, w2)
                 | Inr trips \<Rightarrow>
                     (let fs = audit_query trips;
                          w3 = w2\<lparr>ghost_trip_audit_csv := Some fs\<rparr>;
                          count = length fs;
                          w4 = print ''  -> suspicious trips flagged.'' w3;
                          w5 = print ''  -> Auditing Vendors...'' w4;
                          vendors = vendor_query fs;
                          w6 = print ''  -> Top suspicious vendor code'' w5
                      in (Inr (count, vendors), w6))))"

section \<open>Phase 3: \<^verbatim>\<open>run_impact_analysis\<close>\<close>

subsection \<open>Revenue\<close>

text \<open>\<^verbatim>\<open>SUM\<close> is NULL over no rows.\<close>

definition sql_sum :: "sql_num list \<Rightarrow> sql_num" where
  "sql_sum xs =
     (let vs = List.map_filter id xs in if vs = [] then None else Some (sum_list vs))"

definition rev_query :: "trip list \<Rightarrow> sql_num" where
  "rev_query trips =
     sql_sum (map congestion_surcharge
       (filter (\<lambda>r. is_true
           (sql_and (ts_ge (pickup_time r) start_date)
              (sql_or (sql_in (pickup_loc r) CONGESTION_ZONE_IDS)
                      (sql_in (dropoff_loc r) CONGESTION_ZONE_IDS)))) trips))"

text \<open>
  The \<^verbatim>\<open>try\<close> block of the revenue job with its bare \<^verbatim>\<open>except\<close>: the value of
  \<^verbatim>\<open>revenue\<close> and the world after it.
\<close>

definition revenue_job :: "world \<Rightarrow> rat \<times> world" where
  "revenue_job w =
     (case all_trips_2025 w of
        Inl e \<Rightarrow> (0, w)
      | Inr trips \<Rightarrow>
          (let revenue = (case rev_query trips of
                            None \<Rightarrow> 0
                          | Some v \<Rightarrow> if v \<noteq> 0 then v else 0)
           in (revenue, print ''  -> Estimated 2025 Surcharge Revenue'' w)))"

subsection \<open>Leakage\<close>

definition leakage_where :: "trip \<Rightarrow> sql_bool" where
  "leakage_where r =
     sql_and
       (sql_and (ts_ge (pickup_time r) start_date)
                (sql_not (sql_in (pickup_loc r) CONGESTION_ZONE_IDS)))
       (sql_in (dropoff_loc r) CONGESTION_ZONE_IDS)"

definition compliant :: "trip \<Rightarrow> bool" where
  "compliant r = is_true (sql_gt (congestion_surcharge r) (Some 0))"

text \<open>
  \<^verbatim>\<open>SUM(CASE WHEN congestion_surcharge > 0 THEN 1 ELSE 0 END)\<close> over a group.
\<close>

definition count_compliant :: "trip list \<Rightarrow> nat" where
  "count_compliant g = sum_list (map (\<lambda>r. if compliant r then 1 else 0) g)"

definition leakage_select :: "int option \<times> trip list \<Rightarrow> leakage_row" where
  "leakage_select kg =
     (case kg of (k, g) \<Rightarrow>
        \<lparr> lk_pickup_loc = k,
          total_trips = length g,
          compliant_trips = count_compliant g,
          compliance_rate =
            sql_div (Some (of_nat (count_compliant g))) (Some (of_nat (length g))),
          leakage_rate =
            sql_sub (Some 1)
              (sql_div (Some (of_nat (count_compliant g))) (Some (of_nat (length g)))) \<rparr>)"

text \<open>\<^verbatim>\<open>ORDER BY x DESC\<close> with the engine's default place for NULLs, last.\<close>

definition order_by_desc_nulls_last :: "('a \<Rightarrow> sql_num) \<Rightarrow> 'a list \<Rightarrow> 'a list" where
  "order_by_desc_nulls_last f rows =
     order_by_desc (\<lambda>r. the (f r)) (filter (\<lambda>r. f r \<noteq> None) rows)
       @ filter (\<lambda>r. f r = None) rows"

definition leakage_query :: "trip list \<Rightarrow> leakage_row list" where
  "leakage_query trips =
     take 20 (order_by_desc_nulls_last leakage_rate
       (map leakage_select
         (filter (\<lambda>kg. length (snd kg) > 100)
           (group_by pickup_loc (filter (\<lambda>r. is_true (leakage_where r)) trips)))))"

subsection \<open>Q1 volume\<close>

definition q1_zone_where :: "int \<Rightarrow> raw_trip \<Rightarrow> sql_bool" where
  "q1_zone_where year r =
     sql_and
       (sql_and
         (sql_and (sql_in (sql_month (dropoff_datetime r)) [1, 2, 3])
                  (ts_ge (dropoff_datetime r) (midnight year 1 1)))
         (ts_lt (dropoff_datetime r) (midnight year 4 1)))
       (sql_in (DOLocationID r) CONGESTION_ZONE_IDS)"

definition get_q1_count :: "data_dir \<Rightarrow> int \<Rightarrow> int" where
  "get_q1_count dir year =
     (case read_parquet dir year yellow of
        Inl e \<Rightarrow> 0
      | Inr ys \<Rightarrow>
          (case read_parquet dir year green of
             Inl e \<Rightarrow> 0
           | Inr gs \<Rightarrow> int (length (filter (\<lambda>r. is_true (q1_zone_where year r)) (ys @ gs)))))"

text \<open>Python's \<^verbatim>\<open>/\<close> on two integers: a float, or \<^verbatim>\<open>ZeroDivisionError\<close>.\<close>

definition py_truediv :: "int \<Rightarrow> int \<Rightarrow> exn + rat" where
  "py_truediv a b = (if b = 0 then Inl ZeroDivisionError else Inr (of_int a / of_int b))"

text \<open>
  \<^verbatim>\<open>diff = (q1_2025 - q1_2024) / q1_2024 * 100 if q1_2024 > 0 else 0\<close>
\<close>

definition q1_diff :: "int \<Rightarrow> int \<Rightarrow> exn + rat" where
  "q1_diff q1_2024 q1_2025 =
     (if q1_2024 > 0
      then (case py_truediv (q1_2025 - q1_2024) q1_2024 of
              Inl e \<Rightarrow> Inl e
            | Inr v \<Rightarrow> Inr (v * 100))
      else Inr 0)"

subsection \<open>Velocity heatmap\<close>

definition velocity_duration :: "raw_trip \<Rightarrow> int option" where
  "velocity_duration r = date_diff_minute (pickup_datetime r) (dropoff_datetime r)"

definition velocity_speed :: "raw_trip \<Rightarrow> sql_num" where
  "velocity_speed r =
     sql_div (raw_trip_distance r)
       (sql_div (sql_greatest (num (velocity_duration r)) (Some 1)) (Some 60))"

definition velocity_where :: "raw_trip \<Rightarrow> sql_bool" where
  "velocity_where r =
     sql_and
       (sql_and
         (sql_and
           (sql_and (sql_in (sql_month (pickup_datetime r)) [1, 2, 3])
                    (sql_in (DOLocationID r) CONGESTION_ZONE_IDS))
           (sql_gt (num (velocity_duration r)) (Some 1)))
         (sql_gt (raw_trip_distance r) (Some (1 / 10))))
       (sql_lt (velocity_speed r) (Some 100))"

definition velocity_query :: "raw_trip list \<Rightarrow> velocity_row list" where
  "velocity_query rs =
     map (\<lambda>(k, g). \<lparr> dow = fst k, hour = snd k, avg_speed = sql_avg (map velocity_speed g) \<rparr>)
       (group_by (\<lambda>r. (sql_dayofweek (pickup_datetime r), sql_hour (pickup_datetime r)))
         (filter (\<lambda>r. is_true (velocity_where r)) rs))"

definition export_velocity :: "int \<Rightarrow> world \<Rightarrow> world" where
  "export_velocity year w =
     (case read_parquet (data_files w) year yellow of
        Inl e \<Rightarrow> print ''     Warning: Velocity query failed'' w
      | Inr rs \<Rightarrow> w\<lparr>velocity_csv := (velocity_csv w)(year := Some (velocity_query rs))\<rparr>)"

subsection \<open>Border effect\<close>

text \<open>The two common table expressions: drop-offs of the months 1 to 3 for each zone.\<close>

definition q1_month :: "raw_trip \<Rightarrow> bool" where
  "q1_month r = is_true (sql_in (sql_month (dropoff_datetime r)) [1, 2, 3])"

definition q1_counts :: "raw_trip list \<Rightarrow> (int option \<times> int) list" where
  "q1_counts rs =
     map (\<lambda>(k, g). (k, int (length g))) (group_by DOLocationID (filter q1_month rs))"

text \<open>
  \<^verbatim>\<open>a FULL OUTER JOIN b ON a.loc = b.loc\<close>: the pairs on which the condition is TRUE,
  then each row of \<open>a\<close> and each row of \<open>b\<close> that is in no pair, with NULLs for the
  other side.  A NULL \<open>loc\<close> equals nothing.
\<close>

definition on_loc :: "int option \<times> int \<Rightarrow> int option \<times> int \<Rightarrow> bool" where
  "on_loc a b = is_true (sql_eq (num (fst a)) (num (fst b)))"

definition full_outer_join ::
  "(int option \<times> int) list \<Rightarrow> (int option \<times> int) list
     \<Rightarrow> ((int option \<times> int) option \<times> (int option \<times> int) option) list" where
  "full_outer_join as bs =
     concat (map (\<lambda>a. if filter (on_loc a) bs = [] then [(Some a, None)]
                      else map (\<lambda>b. (Some a, Some b)) (filter (on_loc a) bs)) as)
       @ map (\<lambda>b. (None, Some b)) (filter (\<lambda>b. filter (\<lambda>a. on_loc a b) as = []) bs)"

definition coalesce0 :: "int option \<Rightarrow> int" where
  "coalesce0 x = (case x of None \<Rightarrow> 0 | Some v \<Rightarrow> v)"

definition border_select ::
  "(int option \<times> int) option \<times> (int option \<times> int) option \<Rightarrow> border_row" where
  "border_select ab =
     (let a_loc = Option.bind (fst ab) fst;
          b_loc = Option.bind (snd ab) fst;
          a_cnt = map_option snd (fst ab);
          b_cnt = map_option snd (snd ab)
      in \<lparr> location_id = (case a_loc of None \<Rightarrow> b_loc | Some l \<Rightarrow> Some l),
           count_2024 = coalesce0 a_cnt,
           count_2025 = coalesce0 b_cnt,
           diff = coalesce0 b_cnt - coalesce0 a_cnt,
           pct_change =
             (if coalesce0 a_cnt > 0
              then sql_div (Some (of_int (coalesce0 b_cnt - coalesce0 a_cnt) * 100)) (num a_cnt)
              else Some 0) \<rparr>)"

definition border_query :: "raw_trip list \<Rightarrow> raw_trip list \<Rightarrow> border_row list" where
  "border_query rs_2024 rs_2025 =
     map border_select (full_outer_join (q1_counts rs_2024) (q1_counts rs_2025))"

definition border_job :: "world \<Rightarrow> world" where
  "border_job w =
     (case read_parquet (data_files w) 2024 yellow of
        Inl e \<Rightarrow> print ''    Warning: Border effect failed'' w
      | Inr rs_2024 \<Rightarrow>
          (case read_parquet (data_files w) 2025 yellow of
             Inl e \<Rightarrow> print ''    Warning: Border effect failed'' w
           | Inr rs_2025 \<Rightarrow> w\<lparr>border_effect_csv := Some (border_query rs_2024 rs_2025)\<rparr>))"

subsection \<open>The stage\<close>

definition run_impact_analysis ::
  "nat \<Rightarrow> (int option \<times> nat) list \<Rightarrow> world \<Rightarrow> (exn + unit) \<times> world" where
  "run_impact_analysis ghost_count' suspicious_vendors' w =
     (let w1 = print ''[PHASE 3] Analyzing Congestion Impact...'' w;
          (revenue, w2) = revenue_job w1
      in case all_trips_2025 w2 of
           Inl e \<Rightarrow> (Inl e, w2)
         | Inr trips \<Rightarrow>
             (let w3 = print ''  -> Leakage analysis saved.''
                         (w2\<lparr>leakage_analysis_csv := Some (leakage_query trips)\<rparr>);
                  w4 = print ''  -> Calculating Q1 Volume Decline...'' w3;
                  q1_2024 = get_q1_count (data_files w4) 2024;
                  q1_2025 = get_q1_count (data_files w4) 2025
              in case q1_diff q1_2024 q1_2025 of
                   Inl e \<Rightarrow> (Inl e, w4)
                 | Inr d \<Rightarrow>
                     (let w5 = print ''     Q1 2024 | Q1 2025 | Change'' w4;
                          w6 = w5\<lparr>impact_stats_json := Some
                                 \<lparr> revenue_2025 = revenue,
                                   q1_2024_vol = q1_2024,
                                   q1_2025_vol = q1_2025,
                                   q1_pct_change = d,
                                   ghost_count = ghost_count',
                                   suspicious_vendors = suspicious_vendors' \<rparr>\<rparr>;
                          w7 = print ''  -> Generating Velocity Heatmap Data...'' w6;
                          w8 = export_velocity 2025 (export_velocity 2024 w7);
                          w9 = print ''  -> Generating Border Effect Data...'' w8
                      in (Inr (), border_job w9))))"

section \<open>Phase 4: \<^verbatim>\<open>fetch_weather_and_analyze\<close>\<close>

text \<open>
  What the run finds of the optional libraries: the two flags set by the guarded
  imports, \<^verbatim>\<open>Series.corr\<close> and the slope of \<^verbatim>\<open>stats.linregress\<close>, which may raise.
  The two functions belong to the libraries and are parameters here.
\<close>

record runtime =
  PANDAS_AVAILABLE :: bool
  SCIPY_AVAILABLE :: bool
  series_corr :: "rat list \<Rightarrow> rat list \<Rightarrow> real"
  linregress_slope :: "rat list \<Rightarrow> rat list \<Rightarrow> exn + real"

definition fetch_weather :: "runtime \<Rightarrow> world \<Rightarrow> world" where
  "fetch_weather lib w =
     (if weather_cache w = None
      then (case weather_api w of
              None \<Rightarrow> print ''  -> Failed to fetch weather'' w
            | Some series \<Rightarrow>
                if PANDAS_AVAILABLE lib
                then print ''  -> Weather data downloaded.'' (w\<lparr>weather_cache := Some series\<rparr>)
                else print ''  -> Weather data downloaded (Manual CSV).''
                       (w\<lparr>weather_cache := Some series\<rparr>))
      else w)"

text \<open>
  \<^verbatim>\<open>SELECT CAST(pickup_time AS DATE), COUNT(*) ... GROUP BY 1 ORDER BY 1\<close>
\<close>

definition day_number :: "date \<Rightarrow> int" where
  "day_number d = (case d of (y, m, dd) \<Rightarrow> days_from_civil y m dd)"

definition daily_trips_query :: "trip list \<Rightarrow> (date option \<times> nat) list" where
  "daily_trips_query trips =
     (let gs = map (\<lambda>(k, g). (k, length g)) (group_by (\<lambda>r. sql_date (pickup_time r)) trips)
      in order_by_asc (\<lambda>kc. day_number (the (fst kc))) (filter (\<lambda>kc. fst kc \<noteq> None) gs)
           @ filter (\<lambda>kc. fst kc = None) gs)"

definition tip_fraction :: "trip \<Rightarrow> sql_num" where
  "tip_fraction r =
     (if is_true (sql_gt (fare r) (Some 0))
      then sql_div (sql_sub (total_amount r) (fare r)) (fare r)
      else Some 0)"

definition tips_query :: "trip list \<Rightarrow> tips_row list" where
  "tips_query trips =
     (let gs = map (\<lambda>(k, g).
                  \<lparr> month = k,
                    avg_surcharge = sql_avg (map congestion_surcharge g),
                    avg_tip_pct = map_option (\<lambda>v. v * 100) (sql_avg (map tip_fraction g)) \<rparr>)
                (group_by (\<lambda>r. sql_month (pickup_time r)) trips)
      in order_by_asc (\<lambda>r. the (month r)) (filter (\<lambda>r. month r \<noteq> None) gs)
           @ filter (\<lambda>r. month r = None) gs)"

text \<open>
  \<^verbatim>\<open>pd.merge(df_trips, df_weather, on='date')\<close> followed by \<^verbatim>\<open>dropna()\<close>: the pairs of a
  day of the trip table and a day of the weather table with the same date, without
  the rows that miss a value.
\<close>

definition merge_on_date ::
  "(date option \<times> nat) list \<Rightarrow> (date \<times> sql_num) list \<Rightarrow> (date option \<times> nat \<times> sql_num) list" where
  "merge_on_date df_trips df_weather =
     concat (map (\<lambda>(d, n). map (\<lambda>(d', p). (d, n, p))
                               (filter (\<lambda>(d', p). d = Some d') df_weather)) df_trips)"

definition dropna :: "(date option \<times> nat \<times> sql_num) list \<Rightarrow> (date option \<times> nat \<times> sql_num) list" where
  "dropna df = filter (\<lambda>(d, n, p). d \<noteq> None \<and> p \<noteq> None) df"

definition df_merge :: "world \<Rightarrow> (date option \<times> nat \<times> sql_num) list" where
  "df_merge w =
     (case (daily_trips_2025_csv w, weather_cache w) of
        (Some df_trips, Some df_weather) \<Rightarrow> dropna (merge_on_date df_trips df_weather)
      | _ \<Rightarrow> [])"

text \<open>Step 4, the block guarded by the two flags, with its \<^verbatim>\<open>try\<close> and \<^verbatim>\<open>except\<close>.\<close>

definition elasticity :: "runtime \<Rightarrow> world \<Rightarrow> world" where
  "elasticity lib w =
     (if PANDAS_AVAILABLE lib \<and> SCIPY_AVAILABLE lib
      then (case (daily_trips_2025_csv w, weather_cache w) of
              (Some df_trips, Some df_weather) \<Rightarrow>
                (let m = dropna (merge_on_date df_trips df_weather)
                 in if length m > 10
                    then
                      (let trips_col = map (\<lambda>(d, n, p). of_nat n) m;
                           precipitation_col = map (\<lambda>(d, n, p). the p) m;
                           correlation = series_corr lib trips_col precipitation_col
                       in case linregress_slope lib precipitation_col trips_col of
                            Inl e \<Rightarrow> print ''  -> Economics analysis error'' w
                          | Inr slope \<Rightarrow>
                              (print ''  -> Rain Elasticity (Correlation)'' w)
                                \<lparr>elasticity_txt := Some (correlation, slope)\<rparr>)
                    else w)
            | _ \<Rightarrow> print ''  -> Economics analysis error'' w)
      else w)"

definition fetch_weather_and_analyze :: "runtime \<Rightarrow> world \<Rightarrow> (exn + unit) \<times> world" where
  "fetch_weather_and_analyze lib w =
     (let w1 = fetch_weather lib (print ''[PHASE 4] Weather & Economics...'' w)
      in case all_trips_2025 w1 of
           Inl e \<Rightarrow> (Inl e, w1)
         | Inr trips \<Rightarrow>
             (let w2 = w1\<lparr>daily_trips_2025_csv := Some (daily_trips_query trips)\<rparr>
              in case all_trips_2025 w2 of
                   Inl e \<Rightarrow> (Inl e, w2)
                 | Inr trips' \<Rightarrow>
                     (Inr (), elasticity lib (w2\<lparr>tips_economics_csv := Some (tips_query trips')\<rparr>))))"

section \<open>The orchestrator\<close>

text \<open>The body of the \<^verbatim>\<open>try\<close> of \<^verbatim>\<open>main\<close>: the three stages, the first exception ending it.\<close>

definition run_stages :: "runtime \<Rightarrow> world \<Rightarrow> (exn + unit) \<times> world" where
  "run_stages lib w =
     (case run_ghost_trip_audit w of
        (Inl e, w1) \<Rightarrow> (Inl e, w1)
      | (Inr (count, vendors), w1) \<Rightarrow>
          (case run_impact_analysis count vendors w1 of
             (Inl e, w2) \<Rightarrow> (Inl e, w2)
           | (Inr u, w2) \<Rightarrow> fetch_weather_and_analyze lib w2))"

text \<open>
  \<^verbatim>\<open>main\<close> returns to its caller in the same way on every path: the \<^verbatim>\<open>except\<close> prints the
  exception and the function goes on to its last line.  \<^verbatim>\<open>get_duckdb_conn\<close> opens a new
  in-memory database, which has no view.
\<close>

definition get_duckdb_conn :: "world \<Rightarrow> world" where
  "get_duckdb_conn w = w\<lparr>view_defined := False\<rparr>"

definition main :: "runtime \<Rightarrow> world \<Rightarrow> world" where
  "main lib w =
     (let w1 = ensure_data_available
                 (print ''Starting NYC Congestion Pricing Audit Pipeline (Final)'' w);
          w2 = get_duckdb_conn (print ''Initializing Database Connection...'' w1);
          w3 = (case run_stages lib w2 of
                  (Inl e, w') \<Rightarrow> print ''CRITICAL PIPELINE ERROR'' w'
                | (Inr u, w') \<Rightarrow> w')
      in print ''Pipeline Completed.'' w3)"

section \<open>Example data\<close>

text \<open>
  Concrete rows and worlds on which the functions above are run.  \<open>fresh_world\<close> has
  nothing on disk; \<open>march_trip\<close> is a yellow trip of 1 March 2025 that starts at 10:00
  in zone 1, outside the congestion zone, and ends in zone 4, inside it.
\<close>

definition fresh_world :: world where
  "fresh_world =
     \<lparr> data_files = (\<lambda>k. None),
       weather_cache = None,
       weather_api = None,
       ghost_trip_audit_csv = None,
       leakage_analysis_csv = None,
       impact_stats_json = None,
       velocity_csv = (\<lambda>y. None),
       border_effect_csv = None,
       daily_trips_2025_csv = None,
       tips_economics_csv = None,
       elasticity_txt = None,
       view_defined = False,
       console = [],
       random_source = (\<lambda>n. 1 / 2),
       random_draws = 0 \<rparr>"

definition march_trip :: "int \<Rightarrow> int \<Rightarrow> rat \<Rightarrow> rat \<Rightarrow> sql_num \<Rightarrow> raw_trip" where
  "march_trip vendor minutes miles dollars surcharge =
     \<lparr> raw_VendorID = Some vendor,
       pickup_datetime = Some (Timestamp 2025 3 1 10 0 0),
       dropoff_datetime = Some (Timestamp 2025 3 1 10 minutes 0),
       PULocationID = Some 1,
       DOLocationID = Some 4,
       raw_trip_distance = Some miles,
       fare_amount = Some dollars,
       raw_total_amount = Some (dollars + 2),
       raw_congestion_surcharge = surcharge \<rparr>"

text \<open>
  Vendor 7 has three trips of 5 minutes, 0 miles and 10 dollars; vendor 2 has a trip of
  10 miles in one minute and an ordinary trip; vendor 3 has a trip of no minute for
  25 dollars.
\<close>

definition audit_rows :: "raw_trip list" where
  "audit_rows =
     [march_trip 7 5 0 10 None, march_trip 7 5 0 10 None, march_trip 7 5 0 10 None,
      march_trip 2 1 10 30 (Some (5 / 2)), march_trip 2 10 2 12 (Some (5 / 2)),
      march_trip 3 0 (1 / 100) 25 None]"

definition audit_world :: world where
  "audit_world =
     fresh_world\<lparr>data_files :=
       (\<lambda>k. if k = (2025, yellow, 3) then Some (Table audit_rows)
            else if k = (2025, green, 3) then Some (Table [])
            else None)\<rparr>"

text \<open>
  101 trips from zone 1 into the congestion zone after the start date, 60 of them with
  a surcharge.
\<close>

definition leakage_rows :: "raw_trip list" where
  "leakage_rows =
     replicate 60 (march_trip 7 5 2 10 (Some (5 / 2))) @ replicate 41 (march_trip 7 5 2 10 None)"

definition leakage_world :: world where
  "leakage_world =
     fresh_world\<lparr>data_files :=
       (\<lambda>k. if k = (2025, yellow, 3) then Some (Table leakage_rows)
            else if k = (2025, green, 3) then Some (Table [])
            else None),
       view_defined := True\<rparr>"

text \<open>
  Yellow drop-offs of the first quarter: one in zone 4 in 2024, one in zone 4 and one
  in zone 12 in 2025.
\<close>

definition border_rows_2024 :: "raw_trip list" where
  "border_rows_2024 =
     [(march_trip 7 5 2 10 None)
        \<lparr>pickup_datetime := Some (Timestamp 2024 2 1 10 0 0),
         dropoff_datetime := Some (Timestamp 2024 2 1 10 5 0)\<rparr>]"

definition border_rows_2025 :: "raw_trip list" where
  "border_rows_2025 =
     [march_trip 7 5 2 10 None, (march_trip 7 5 2 10 None)\<lparr>DOLocationID := Some 12\<rparr>]"

definition border_world :: world where
  "border_world =
     fresh_world\<lparr>data_files :=
       (\<lambda>k. if k = (2024, yellow, 2) then Some (Table border_rows_2024)
            else if k = (2025, yellow, 3) then Some (Table border_rows_2025)
            else None)\<rparr>"

text \<open>
  \<open>sources_world\<close> has the December files of 2023 and 2024 for both classes and no
  December 2025; \<open>december_world\<close> has a December 2025 file for both classes.
\<close>

definition december_trip :: "int \<Rightarrow> int \<Rightarrow> raw_trip" where
  "december_trip y d =
     (march_trip 7 5 2 10 None)
       \<lparr>pickup_datetime := Some (Timestamp y 12 d 10 0 0),
        dropoff_datetime := Some (Timestamp y 12 d 10 5 0)\<rparr>"

definition sources_world :: world where
  "sources_world =
     fresh_world\<lparr>data_files :=
       (\<lambda>k. if k = (2023, yellow, 12) then Some (Table [december_trip 2023 1, december_trip 2023 2])
            else if k = (2024, yellow, 12) then Some (Table [december_trip 2024 3])
            else if k = (2023, green, 12) then Some (Table [december_trip 2023 4])
            else if k = (2024, green, 12) then Some (Table [december_trip 2024 5, december_trip 2024 6])
            else None)\<rparr>"

definition december_world :: world where
  "december_world =
     fresh_world\<lparr>data_files :=
       (\<lambda>k. if k = (2025, yellow, 12) then Some (Table [december_trip 2025 1])
            else if k = (2025, green, 12) then Some (Table [])
            else None)\<rparr>"

text \<open>
  \<open>year_2024_world\<close> has one yellow file of February 2024 and no file of 2025.
\<close>

definition year_2024_world :: world where
  "year_2024_world =
     fresh_world\<lparr>data_files :=
       (\<lambda>k. if k = (2024, yellow, 2) then Some (Table border_rows_2024) else None)\<rparr>"

text \<open>
  A runtime with both libraries.  Its regression raises on a constant \<open>x\<close> column, as
  the library does, and the two numbers it returns otherwise are placeholders.
\<close>

definition example_runtime :: runtime where
  "example_runtime =
     \<lparr> PANDAS_AVAILABLE = True,
       SCIPY_AVAILABLE = True,
       series_corr = (\<lambda>xs ys. 0),
       linregress_slope = (\<lambda>xs ys. if length (remdups xs) \<le> 1 then Inl ValueError else Inr 0) \<rparr>"

text \<open>
  \<open>weather_world n\<close> has the view defined over one trip on each of the first \<open>n\<close> days
  of March 2025, and a cached weather table for the 31 days of that month.
\<close>

definition daily_rows :: "int \<Rightarrow> raw_trip list" where
  "daily_rows n =
     map (\<lambda>d. (march_trip 7 5 2 10 None)
                 \<lparr>pickup_datetime := Some (Timestamp 2025 3 d 10 0 0),
                  dropoff_datetime := Some (Timestamp 2025 3 d 10 5 0)\<rparr>) [1..n]"

definition march_weather :: "(date \<times> sql_num) list" where
  "march_weather = map (\<lambda>d. ((2025, 3, d), Some (of_int d))) [1..31]"

definition weather_world :: "int \<Rightarrow> world" where
  "weather_world n =
     fresh_world\<lparr>data_files :=
       (\<lambda>k. if k = (2025, yellow, 3) then Some (Table (daily_rows n))
            else if k = (2025, green, 3) then Some (Table [])
            else None),
       weather_cache := Some march_weather,
       view_defined := True\<rparr>"

section \<open>Facts about grouping\<close>

lemma set_keys_of: "set (keys_of ks) = set ks"
  by (induction ks) auto

lemma group_by_mem:
  assumes "(k, g) \<in> set (group_by key rows)"
  shows "g = filter (\<lambda>r. key r = k) rows" and "k \<in> key ` set rows"
  using assms by (auto simp: group_by_def set_keys_of)

section \<open>Properties of the ghost-trip audit\<close>

lemma audit_where_true:
  "is_true (audit_where r) \<longleftrightarrow>
     is_true (impossible_physics r) \<or> is_true (teleporter r) \<or> is_true (stationary_ride r)"
  by (auto simp: audit_where_def is_true_def sql_or_def)

lemma run_ghost_trip_audit_persists:
  assumes "query_view (data_files w) = Inr trips"
  shows "ghost_trip_audit_csv (snd (run_ghost_trip_audit w)) = Some (audit_query trips)"
    and "fst (run_ghost_trip_audit w)
           = Inr (length (audit_query trips), vendor_query (audit_query trips))"
  using assms by (simp_all add: run_ghost_trip_audit_def Let_def print_def all_trips_2025_def)









lemma stationary_row:
  assumes "trip_distance r = Some 0" "fare r = Some f" "0 < f" "f \<le> 20"
    "duration_expr r = Some d" "1 \<le> d"
  shows "\<not> is_true (impossible_physics r)" "\<not> is_true (teleporter r)"
    "is_true (stationary_ride r)" "fraud_flag_expr r = Stationary_Ride"
  using assms
  by (simp_all add: fraud_flag_expr_def impossible_physics_def teleporter_def stationary_ride_def
      speed_filter_mph_def is_true_def sql_gt_def sql_lt_def sql_eq_def sql_and_def sql_div_def
      sql_greatest_def num_def GHOST_SPEED_LIMIT_def GHOST_I_TELEPORTER_TIME_def
      GHOST_I_TELEPORTER_FARE_def GHOST_I_STATIONARY_DIST_def)

lemma audit_query_vendor:
  assumes "\<forall>r \<in> set trips. VendorID r = A \<longrightarrow> is_true (audit_where r)"
  shows "map row (filter (\<lambda>f. VendorID (row f) = A) (audit_query trips))
           = filter (\<lambda>r. VendorID r = A) trips"
  using assms
  by (induction trips) (auto simp: audit_query_def audit_select_def)

lemma vendor_query_mem:
  assumes "(v, n) \<in> set (vendor_query fs)"
  shows "n = length (filter (\<lambda>f. VendorID (row f) = v) fs)"
proof -
  from assms have "(v, n) \<in> set (order_by_desc snd
       (map (\<lambda>(v, g). (v, length g)) (group_by (\<lambda>f. VendorID (row f)) fs)))"
    unfolding vendor_query_def by (rule in_set_takeD)
  then obtain g where "(v, g) \<in> set (group_by (\<lambda>f. VendorID (row f)) fs)" "n = length g"
    by (auto simp: order_by_desc_def)
  then show ?thesis using group_by_mem(1) by fastforce
qed

lemma audit_query_flag:
  "f \<in> set (audit_query trips) \<Longrightarrow> fraud_flag f = fraud_flag_expr (row f) \<and> row f \<in> set trips"
  by (auto simp: audit_query_def audit_select_def)

text \<open>
  Claim C2.  A trip of distance 0 with a fare above 0 and at most 20 dollars that lasts
  at least one minute is classified Stationary Ride: neither the impossible-physics
  condition nor the teleporter condition is TRUE on it.  And when the trips of a
  submitter \<open>A\<close> in the view are three trips of distance 0, fare 10 and 5 minutes, the
  flagged file holds exactly three rows of \<open>A\<close>, each flagged Stationary Ride, and
  the count of \<open>A\<close> on the leaderboard that the stage returns, if \<open>A\<close> is on it, is 3.
\<close>

theorem stationary_ride_classified:
  "(\<forall>r f d. trip_distance r = Some 0 \<and> fare r = Some f \<and> 0 < f \<and> f \<le> 20
             \<and> duration_expr r = Some d \<and> 1 \<le> d
        \<longrightarrow> fraud_flag_expr r = Stationary_Ride
            \<and> \<not> is_true (impossible_physics r) \<and> \<not> is_true (teleporter r))
   \<and> (\<forall>w trips A.
         query_view (data_files w) = Inr trips
         \<and> length (filter (\<lambda>r. VendorID r = A) trips) = 3
         \<and> (\<forall>r \<in> set trips. VendorID r = A \<longrightarrow>
               trip_distance r = Some 0 \<and> fare r = Some 10 \<and> duration_expr r = Some 5)
        \<longrightarrow> (\<exists>fs. ghost_trip_audit_csv (snd (run_ghost_trip_audit w)) = Some fs
               \<and> length (filter (\<lambda>f. VendorID (row f) = A) fs) = 3
               \<and> (\<forall>f \<in> set fs. VendorID (row f) = A \<longrightarrow> fraud_flag f = Stationary_Ride)
               \<and> (\<exists>vs. fst (run_ghost_trip_audit w) = Inr (length fs, vs)
                      \<and> (\<forall>n. (A, n) \<in> set vs \<longrightarrow> n = 3))))"
proof (intro conjI allI impI)
  fix r :: trip and f :: rat and d :: int
  assume h: "trip_distance r = Some 0 \<and> fare r = Some f \<and> 0 < f \<and> f \<le> 20
             \<and> duration_expr r = Some d \<and> 1 \<le> d"
  then show "fraud_flag_expr r = Stationary_Ride" by (simp add: stationary_row)
  from h show "\<not> is_true (impossible_physics r)" by (simp add: stationary_row)
  from h show "\<not> is_true (teleporter r)" by (simp add: stationary_row)
next
  fix w :: world and trips :: "trip list" and A :: "int option"
  assume h: "query_view (data_files w) = Inr trips
         \<and> length (filter (\<lambda>r. VendorID r = A) trips) = 3
         \<and> (\<forall>r \<in> set trips. VendorID r = A \<longrightarrow>
               trip_distance r = Some 0 \<and> fare r = Some 10 \<and> duration_expr r = Some 5)"
  let ?fs = "audit_query trips"
  have rows: "\<And>r. r \<in> set trips \<Longrightarrow> VendorID r = A \<Longrightarrow>
                is_true (stationary_ride r) \<and> fraud_flag_expr r = Stationary_Ride"
  proof -
    fix r assume "r \<in> set trips" "VendorID r = A"
    with h have "trip_distance r = Some 0" "fare r = Some 10" "duration_expr r = Some 5"
      by auto
    then show "is_true (stationary_ride r) \<and> fraud_flag_expr r = Stationary_Ride"
      using stationary_row(3,4) [of r 10 5] by simp
  qed
  have p: "ghost_trip_audit_csv (snd (run_ghost_trip_audit w)) = Some ?fs"
    using h by (simp add: run_ghost_trip_audit_persists)
  have "map row (filter (\<lambda>f. VendorID (row f) = A) ?fs) = filter (\<lambda>r. VendorID r = A) trips"
    using rows by (intro audit_query_vendor) (simp add: audit_where_true)
  then have "length (map row (filter (\<lambda>f. VendorID (row f) = A) ?fs)) = 3"
    using h by simp
  then have n: "length (filter (\<lambda>f. VendorID (row f) = A) ?fs) = 3" by simp
  have fl: "\<forall>f \<in> set ?fs. VendorID (row f) = A \<longrightarrow> fraud_flag f = Stationary_Ride"
    using rows audit_query_flag by metis
  have r: "fst (run_ghost_trip_audit w) = Inr (length ?fs, vendor_query ?fs)"
    using h by (simp add: run_ghost_trip_audit_persists)
  have b: "\<forall>n. (A, n) \<in> set (vendor_query ?fs) \<longrightarrow> n = 3"
    using vendor_query_mem [of A _ ?fs] n by simp
  from p n fl r b
  show "\<exists>fs. ghost_trip_audit_csv (snd (run_ghost_trip_audit w)) = Some fs
               \<and> length (filter (\<lambda>f. VendorID (row f) = A) fs) = 3
               \<and> (\<forall>f \<in> set fs. VendorID (row f) = A \<longrightarrow> fraud_flag f = Stationary_Ride)
               \<and> (\<exists>vs. fst (run_ghost_trip_audit w) = Inr (length fs, vs)
                      \<and> (\<forall>n. (A, n) \<in> set vs \<longrightarrow> n = 3))"
    by blast
qed

theorem stationary_ride_classified_witness:
  "fraud_flag_expr (view_row yellow (march_trip 7 5 0 10 None)) = Stationary_Ride
   \<and> \<not> is_true (impossible_physics (view_row yellow (march_trip 7 5 0 10 None)))
   \<and> \<not> is_true (teleporter (view_row yellow (march_trip 7 5 0 10 None)))
   \<and> (\<exists>fs. ghost_trip_audit_csv (snd (run_ghost_trip_audit audit_world)) = Some fs
          \<and> length (filter (\<lambda>f. VendorID (row f) = Some 7) fs) = 3
          \<and> (\<forall>f \<in> set fs. VendorID (row f) = Some 7 \<longrightarrow> fraud_flag f = Stationary_Ride))
   \<and> fst (run_ghost_trip_audit audit_world) = Inr (5, [(Some 7, 3), (Some 2, 1), (Some 3, 1)])"
proof -
  let ?r = "view_row yellow (march_trip 7 5 0 10 None)"
  have a: "trip_distance ?r = Some 0 \<and> fare ?r = Some 10 \<and> (0::rat) < 10 \<and> (10::rat) \<le> 20
             \<and> duration_expr ?r = Some 5 \<and> (1::int) \<le> 5"
    by code_simp
  have b: "query_view (data_files audit_world) = Inr (map (view_row yellow) audit_rows)
         \<and> length (filter (\<lambda>r. VendorID r = Some 7) (map (view_row yellow) audit_rows)) = 3
         \<and> (\<forall>r \<in> set (map (view_row yellow) audit_rows). VendorID r = Some 7 \<longrightarrow>
               trip_distance r = Some 0 \<and> fare r = Some 10 \<and> duration_expr r = Some 5)"
    by code_simp
  have c: "fst (run_ghost_trip_audit audit_world)
             = Inr (5, [(Some 7, 3), (Some 2, 1), (Some 3, 1)])"
    by code_simp
  from stationary_ride_classified a b c show ?thesis by blast
qed

lemma speeds:
  assumes "duration_expr r = Some d" "trip_distance r = Some x"
  shows "speed_mph_expr r = Some (if d \<le> 0 then 0 else x / (of_int d / 60))"
    and "speed_filter_mph r = Some (x / (max (of_int d) (1 / 10) / 60))"
    and "impossible_physics r = Some (65 < x / (max (of_int d) (1 / 10) / 60))"
  using assms
  by (auto simp: speed_mph_expr_def speed_filter_mph_def impossible_physics_def is_true_def
      sql_le_def sql_div_def sql_greatest_def num_def sql_gt_def sql_lt_def GHOST_SPEED_LIMIT_def
      max_def)

lemma speeds_differ:
  assumes "duration_expr r = Some d" "trip_distance r = Some x"
  shows "speed_mph_expr r \<noteq> speed_filter_mph r \<longleftrightarrow> d \<le> 0 \<and> x \<noteq> 0"
proof (cases "d \<le> 0")
  case True
  then have "max (of_int d) (1 / 10) = (1 / 10 :: rat)" by (simp add: max_def)
  with True assms show ?thesis by (simp add: speeds)
next
  case False
  then have "1 \<le> d" by simp
  then have "(1::rat) \<le> of_int d" by linarith
  then have "max (of_int d) (1 / 10) = (of_int d :: rat)" by (simp add: max_def)
  with False assms show ?thesis by (simp add: speeds)
qed

text \<open>
  Claim C3.  On a trip of duration \<open>d\<close> minutes and distance \<open>x\<close>, the \<open>speed_mph\<close> column
  of the audit output is 0 when \<open>d \<le> 0\<close> and \<open>x / (d / 60)\<close> otherwise, while the speed
  that the impossible-physics condition compares with 65 is \<open>x / (max d 0.1 / 60)\<close>.
  The two differ exactly on the trips with \<open>d \<le> 0\<close> and \<open>x \<noteq> 0\<close>, and such trips exist.
\<close>

theorem reported_and_filter_speed:
  "(\<forall>r d x. duration_expr r = Some d \<and> trip_distance r = Some x \<longrightarrow>
       duration_min (audit_select r) = Some d
     \<and> speed_mph (audit_select r) = Some (if d \<le> 0 then 0 else x / (of_int d / 60))
     \<and> speed_filter_mph r = Some (x / (max (of_int d) (1 / 10) / 60))
     \<and> impossible_physics r = Some (65 < x / (max (of_int d) (1 / 10) / 60))
     \<and> (speed_mph (audit_select r) \<noteq> speed_filter_mph r \<longleftrightarrow> d \<le> 0 \<and> x \<noteq> 0))
   \<and> (\<exists>r. speed_mph (audit_select r) \<noteq> speed_filter_mph r)"
proof (intro conjI allI impI)
  fix r :: trip and d :: int and x :: rat
  assume h: "duration_expr r = Some d \<and> trip_distance r = Some x"
  then show "duration_min (audit_select r) = Some d" by (simp add: audit_select_def)
  from h show "speed_mph (audit_select r) = Some (if d \<le> 0 then 0 else x / (of_int d / 60))"
    by (simp add: audit_select_def speeds(1))
  from h show "speed_filter_mph r = Some (x / (max (of_int d) (1 / 10) / 60))"
    by (simp add: speeds(2))
  from h show "impossible_physics r = Some (65 < x / (max (of_int d) (1 / 10) / 60))"
    by (simp add: speeds(3))
  from h show "speed_mph (audit_select r) \<noteq> speed_filter_mph r \<longleftrightarrow> d \<le> 0 \<and> x \<noteq> 0"
    using speeds_differ [of r d x] by (simp add: audit_select_def)
next
  let ?r = "view_row yellow (march_trip 3 0 (1 / 100) 25 None)"
  have "duration_expr ?r = Some 0" "trip_distance ?r = Some (1 / 100)" by code_simp+
  then have "speed_mph_expr ?r \<noteq> speed_filter_mph ?r"
    using speeds_differ [of ?r 0 "1 / 100"] by simp
  then show "\<exists>r. speed_mph (audit_select r) \<noteq> speed_filter_mph r"
    by (auto simp: audit_select_def)
qed

theorem reported_and_filter_speed_witness:
  "duration_expr (view_row yellow (march_trip 3 0 (1 / 100) 25 None)) = Some 0
   \<and> trip_distance (view_row yellow (march_trip 3 0 (1 / 100) 25 None)) = Some (1 / 100)
   \<and> speed_mph (audit_select (view_row yellow (march_trip 3 0 (1 / 100) 25 None))) = Some 0
   \<and> speed_filter_mph (view_row yellow (march_trip 3 0 (1 / 100) 25 None)) = Some 6
   \<and> impossible_physics (view_row yellow (march_trip 3 0 (1 / 100) 25 None)) = Some False
   \<and> speed_mph (audit_select (view_row yellow (march_trip 3 0 (1 / 100) 25 None)))
       \<noteq> speed_filter_mph (view_row yellow (march_trip 3 0 (1 / 100) 25 None))"
proof -
  let ?r = "view_row yellow (march_trip 3 0 (1 / 100) 25 None)"
  have h: "duration_expr ?r = Some 0 \<and> trip_distance ?r = Some (1 / 100)"
    by code_simp
  from reported_and_filter_speed [THEN conjunct1, rule_format, of ?r 0 "1 / 100"] h
  show ?thesis by simp
qed

section \<open>What each step leaves unchanged\<close>

lemma print_fields [simp]:
  "data_files (print m w) = data_files w"
  "view_defined (print m w) = view_defined w"
  "leakage_analysis_csv (print m w) = leakage_analysis_csv w"
  "impact_stats_json (print m w) = impact_stats_json w"
  "velocity_csv (print m w) = velocity_csv w"
  "border_effect_csv (print m w) = border_effect_csv w"
  "ghost_trip_audit_csv (print m w) = ghost_trip_audit_csv w"
  "daily_trips_2025_csv (print m w) = daily_trips_2025_csv w"
  "tips_economics_csv (print m w) = tips_economics_csv w"
  "elasticity_txt (print m w) = elasticity_txt w"
  "weather_cache (print m w) = weather_cache w"
  "weather_api (print m w) = weather_api w"
  "random_draws (print m w) = random_draws w"
  "random_source (print m w) = random_source w"
  "console (print m w) = console w @ [m]"
  by (simp_all add: print_def)

lemma all_trips_2025_print [simp]: "all_trips_2025 (print m w) = all_trips_2025 w"
  by (simp add: all_trips_2025_def)

lemma revenue_job_world:
  "snd (revenue_job w) = w
   \<or> snd (revenue_job w) = print ''  -> Estimated 2025 Surcharge Revenue'' w"
  by (simp add: revenue_job_def Let_def split: sum.splits)

lemma revenue_job_frame [simp]:
  "all_trips_2025 (snd (revenue_job w)) = all_trips_2025 w"
  "data_files (snd (revenue_job w)) = data_files w"
  "leakage_analysis_csv (snd (revenue_job w)) = leakage_analysis_csv w"
  "velocity_csv (snd (revenue_job w)) = velocity_csv w"
  "border_effect_csv (snd (revenue_job w)) = border_effect_csv w"
  "impact_stats_json (snd (revenue_job w)) = impact_stats_json w"
  using revenue_job_world [of w] by auto

lemma revenue_job_print [simp]: "fst (revenue_job (print m w)) = fst (revenue_job w)"
  by (simp add: revenue_job_def Let_def split: sum.splits)

lemma export_velocity_frame [simp]:
  "data_files (export_velocity y w) = data_files w"
  "leakage_analysis_csv (export_velocity y w) = leakage_analysis_csv w"
  "impact_stats_json (export_velocity y w) = impact_stats_json w"
  by (simp_all add: export_velocity_def split: sum.splits)

lemma border_job_frame [simp]:
  "data_files (border_job w) = data_files w"
  "leakage_analysis_csv (border_job w) = leakage_analysis_csv w"
  "impact_stats_json (border_job w) = impact_stats_json w"
  by (simp_all add: border_job_def split: sum.splits)

lemma q1_diff_value:
  "q1_diff a b = Inr (if 0 < a then of_int (b - a) / of_int a * 100 else 0)"
  by (simp add: q1_diff_def py_truediv_def)

lemma run_impact_analysis_ok:
  assumes "all_trips_2025 w = Inr trips"
  shows "fst (run_impact_analysis c v w) = Inr ()"
    and "leakage_analysis_csv (snd (run_impact_analysis c v w)) = Some (leakage_query trips)"
    and "impact_stats_json (snd (run_impact_analysis c v w)) = Some
           \<lparr> revenue_2025 = fst (revenue_job w),
             q1_2024_vol = get_q1_count (data_files w) 2024,
             q1_2025_vol = get_q1_count (data_files w) 2025,
             q1_pct_change =
               (if 0 < get_q1_count (data_files w) 2024
                then of_int (get_q1_count (data_files w) 2025 - get_q1_count (data_files w) 2024)
                       / of_int (get_q1_count (data_files w) 2024) * 100
                else 0),
             ghost_count = c,
             suspicious_vendors = v \<rparr>"
  using assms
  by (simp_all add: run_impact_analysis_def Let_def q1_diff_value split_beta)

section \<open>Properties of the leakage table\<close>







lemma leakage_world_view:
  "all_trips_2025 leakage_world = Inr (map (view_row yellow) leakage_rows)"
  by code_simp



section \<open>Properties of the border-effect table\<close>

lemma border_select_pct:
  "pct_change (border_select ab) =
     Some (if 0 < count_2024 (border_select ab)
           then of_int (count_2025 (border_select ab) - count_2024 (border_select ab)) * 100
                  / of_int (count_2024 (border_select ab))
           else 0)"
  by (cases "fst ab")
     (auto simp: border_select_def Let_def coalesce0_def sql_div_def num_def)

lemma q1_counts_mem:
  "(k, c) \<in> set (q1_counts rs) \<longleftrightarrow>
     (\<exists>r \<in> set rs. q1_month r \<and> DOLocationID r = k)
     \<and> c = int (length (filter (\<lambda>r. q1_month r \<and> DOLocationID r = k) rs))"
  by (auto simp: q1_counts_def group_by_def set_keys_of conj_commute)

lemma on_loc_iff: "on_loc a b \<longleftrightarrow> (\<exists>z. fst a = Some z \<and> fst b = Some z)"
  by (cases "fst a"; cases "fst b") (auto simp: on_loc_def is_true_def sql_eq_def num_def)

lemma border_job_writes:
  assumes "read_parquet (data_files w) 2024 yellow = Inr rs_2024"
    "read_parquet (data_files w) 2025 yellow = Inr rs_2025"
  shows "border_effect_csv (border_job w) = Some (border_query rs_2024 rs_2025)"
  using assms by (simp add: border_job_def)

lemma border_later_only:
  assumes new: "\<exists>r \<in> set rs_2025. q1_month r \<and> DOLocationID r = Some z"
    and old: "\<forall>r \<in> set rs_2024. q1_month r \<longrightarrow> DOLocationID r \<noteq> Some z"
  shows "\<exists>row \<in> set (border_query rs_2024 rs_2025). location_id row = Some z"
    and "\<forall>row \<in> set (border_query rs_2024 rs_2025). location_id row = Some z \<longrightarrow>
           count_2024 row = 0 \<and> pct_change row = Some 0
           \<and> count_2025 row
               = int (length (filter (\<lambda>r. q1_month r \<and> DOLocationID r = Some z) rs_2025))"
proof -
  let ?as = "q1_counts rs_2024" and ?bs = "q1_counts rs_2025"
  let ?c = "int (length (filter (\<lambda>r. q1_month r \<and> DOLocationID r = Some z) rs_2025))"
  have noa: "\<And>a. a \<in> set ?as \<Longrightarrow> fst a \<noteq> Some z"
    using old by (metis q1_counts_mem prod.collapse)
  have b: "(Some z, ?c) \<in> set ?bs" using new by (simp add: q1_counts_mem)
  have unmatched: "filter (\<lambda>a. on_loc a (Some z, ?c)) ?as = []"
    using noa by (auto simp: filter_empty_conv on_loc_iff)
  have "(None, Some (Some z, ?c)) \<in> set (full_outer_join ?as ?bs)"
    using b unmatched by (auto simp: full_outer_join_def)
  then have "border_select (None, Some (Some z, ?c)) \<in> set (border_query rs_2024 rs_2025)"
    by (simp add: border_query_def)
  moreover have "location_id (border_select (None, Some (Some z, ?c))) = Some z"
    by (simp add: border_select_def Let_def)
  ultimately show "\<exists>row \<in> set (border_query rs_2024 rs_2025). location_id row = Some z"
    by blast
  show "\<forall>row \<in> set (border_query rs_2024 rs_2025). location_id row = Some z \<longrightarrow>
           count_2024 row = 0 \<and> pct_change row = Some 0 \<and> count_2025 row = ?c"
  proof (intro ballI impI)
    fix row assume "row \<in> set (border_query rs_2024 rs_2025)" and z: "location_id row = Some z"
    then obtain ab where ab: "ab \<in> set (full_outer_join ?as ?bs)" "row = border_select ab"
      by (auto simp: border_query_def)
    from ab(1) consider
      (left) a where "ab = (Some a, None)" "a \<in> set ?as"
      | (both) a b' where "ab = (Some a, Some b')" "a \<in> set ?as" "b' \<in> set ?bs" "on_loc a b'"
      | (right) b' where "ab = (None, Some b')" "b' \<in> set ?bs"
      by (auto simp: full_outer_join_def split: if_splits)
    then show "count_2024 row = 0 \<and> pct_change row = Some 0 \<and> count_2025 row = ?c"
    proof cases
      case left
      with z ab(2) noa [of a] show ?thesis
        by (cases "fst a") (auto simp: border_select_def Let_def)
    next
      case both
      with z ab(2) noa [of a] show ?thesis
        by (auto simp: border_select_def Let_def on_loc_iff)
    next
      case right
      with z ab(2) have "fst b' = Some z" by (simp add: border_select_def Let_def)
      with right(2) have "snd b' = ?c" by (metis q1_counts_mem prod.collapse)
      with right(1) ab(2) show ?thesis
        by (simp add: border_select_def Let_def coalesce0_def)
    qed
  qed
qed

text \<open>
  Claim C5.  Let \<open>rs_2024\<close> and \<open>rs_2025\<close> be the yellow rows of the two years; the
  border job writes the table \<open>border_query rs_2024 rs_2025\<close> when both can be read.  A zone
  \<open>z\<close> that has a first-quarter drop-off in 2025 and none in 2024 has a row in the
  border-effect table, and every row of \<open>z\<close> reports \<open>count_2024 = 0\<close>, \<open>pct_change = 0\<close>
  and the 2025 count of the zone.  In every row of the table \<open>pct_change\<close> is a number,
  never the NULL of a division by zero: it is the change in percent of the 2024 count
  when that count is positive and 0 otherwise.
\<close>

theorem border_effect_zero_guard:
  "(\<forall>w. read_parquet (data_files w) 2024 yellow = Inr rs_2024
         \<and> read_parquet (data_files w) 2025 yellow = Inr rs_2025
       \<longrightarrow> border_effect_csv (border_job w) = Some (border_query rs_2024 rs_2025))
   \<and> (\<forall>z. (\<exists>r \<in> set rs_2025. q1_month r \<and> DOLocationID r = Some z)
        \<and> (\<forall>r \<in> set rs_2024. q1_month r \<longrightarrow> DOLocationID r \<noteq> Some z)
      \<longrightarrow> (\<exists>row \<in> set (border_query rs_2024 rs_2025). location_id row = Some z)
        \<and> (\<forall>row \<in> set (border_query rs_2024 rs_2025). location_id row = Some z \<longrightarrow>
              count_2024 row = 0 \<and> pct_change row = Some 0
              \<and> count_2025 row
                  = int (length (filter (\<lambda>r. q1_month r \<and> DOLocationID r = Some z) rs_2025))))
   \<and> (\<forall>row \<in> set (border_query rs_2024 rs_2025).
         pct_change row =
           Some (if 0 < count_2024 row
                 then of_int (count_2025 row - count_2024 row) * 100 / of_int (count_2024 row)
                 else 0))"
proof (intro conjI allI impI)
  fix w :: world
  assume "read_parquet (data_files w) 2024 yellow = Inr rs_2024
         \<and> read_parquet (data_files w) 2025 yellow = Inr rs_2025"
  then show "border_effect_csv (border_job w) = Some (border_query rs_2024 rs_2025)"
    by (simp add: border_job_writes)
next
  fix z
  assume h: "(\<exists>r \<in> set rs_2025. q1_month r \<and> DOLocationID r = Some z)
        \<and> (\<forall>r \<in> set rs_2024. q1_month r \<longrightarrow> DOLocationID r \<noteq> Some z)"
  then show "\<exists>row \<in> set (border_query rs_2024 rs_2025). location_id row = Some z"
    using border_later_only(1) [of rs_2025 z rs_2024] by blast
  from h show "\<forall>row \<in> set (border_query rs_2024 rs_2025). location_id row = Some z \<longrightarrow>
              count_2024 row = 0 \<and> pct_change row = Some 0
              \<and> count_2025 row
                  = int (length (filter (\<lambda>r. q1_month r \<and> DOLocationID r = Some z) rs_2025))"
    using border_later_only(2) [of rs_2025 z rs_2024] by blast
next
  show "\<forall>row \<in> set (border_query rs_2024 rs_2025).
         pct_change row =
           Some (if 0 < count_2024 row
                 then of_int (count_2025 row - count_2024 row) * 100 / of_int (count_2024 row)
                 else 0)"
    using border_select_pct by (auto simp: border_query_def)
qed

lemma border_rows_table:
  "border_query border_rows_2024 border_rows_2025 =
     [\<lparr> location_id = Some 4, count_2024 = 1, count_2025 = 1, diff = 0, pct_change = Some 0 \<rparr>,
      \<lparr> location_id = Some 12, count_2024 = 0, count_2025 = 1, diff = 1, pct_change = Some 0 \<rparr>]"
  by code_simp

theorem border_effect_zero_guard_witness:
  "read_parquet (data_files border_world) 2024 yellow = Inr border_rows_2024
   \<and> read_parquet (data_files border_world) 2025 yellow = Inr border_rows_2025
   \<and> border_effect_csv (border_job border_world)
       = Some (border_query border_rows_2024 border_rows_2025)
   \<and> (\<exists>r \<in> set border_rows_2025. q1_month r \<and> DOLocationID r = Some 12)
   \<and> \<not> (\<exists>r \<in> set border_rows_2024. q1_month r \<and> DOLocationID r = Some 12)
   \<and> (\<exists>row \<in> set (border_query border_rows_2024 border_rows_2025).
          location_id row = Some 12 \<and> count_2024 row = 0 \<and> count_2025 row = 1
          \<and> pct_change row = Some 0)"
proof -
  have h: "(\<exists>r \<in> set border_rows_2025. q1_month r \<and> DOLocationID r = Some 12)
        \<and> (\<forall>r \<in> set border_rows_2024. q1_month r \<longrightarrow> DOLocationID r \<noteq> Some 12)"
    by code_simp
  have n: "int (length (filter (\<lambda>r. q1_month r \<and> DOLocationID r = Some 12) border_rows_2025)) = 1"
    by code_simp
  have g: "read_parquet (data_files border_world) 2024 yellow = Inr border_rows_2024
         \<and> read_parquet (data_files border_world) 2025 yellow = Inr border_rows_2025"
    by code_simp
  with border_effect_zero_guard [of border_rows_2024 border_rows_2025]
  have w: "border_effect_csv (border_job border_world)
             = Some (border_query border_rows_2024 border_rows_2025)"
    by blast
  from border_effect_zero_guard [of border_rows_2024 border_rows_2025] h
  have "(\<exists>row \<in> set (border_query border_rows_2024 border_rows_2025). location_id row = Some 12)
        \<and> (\<forall>row \<in> set (border_query border_rows_2024 border_rows_2025).
              location_id row = Some 12 \<longrightarrow>
              count_2024 row = 0 \<and> pct_change row = Some 0
              \<and> count_2025 row
                  = int (length (filter (\<lambda>r. q1_month r \<and> DOLocationID r = Some 12)
                                   border_rows_2025)))"
    by blast
  with h n g w show ?thesis by auto
qed

section \<open>Properties of the Q1 volume comparison\<close>

lemma get_q1_count_nonneg: "0 \<le> get_q1_count dir y"
  by (simp add: get_q1_count_def split: sum.splits)

text \<open>
  Claim C6.  With \<open>e\<close> the Q1 count of the earlier year and \<open>l\<close> that of the later year,
  the percent change is \<open>(l - e) / e * 100\<close> when \<open>e\<close> is positive and 0 when \<open>e\<close> is 0;
  the division never raises.  Counts of 1000 and 1100 give 10.  The value written to
  the summary record is this function of the two counts written beside it, which are
  the counts of \<^verbatim>\<open>get_q1_count\<close> for 2024 and 2025 and are never negative.
\<close>

theorem q1_percent_change:
  "(0 < e \<longrightarrow> q1_diff e l = Inr (of_int (l - e) / of_int e * 100))
   \<and> (e = 0 \<longrightarrow> q1_diff e l = Inr 0)
   \<and> q1_diff 1000 1100 = Inr 10
   \<and> (\<forall>w trips c v. all_trips_2025 w = Inr trips \<longrightarrow>
         (\<exists>st. impact_stats_json (snd (run_impact_analysis c v w)) = Some st
            \<and> q1_2024_vol st = get_q1_count (data_files w) 2024
            \<and> q1_2025_vol st = get_q1_count (data_files w) 2025
            \<and> 0 \<le> q1_2024_vol st
            \<and> q1_diff (q1_2024_vol st) (q1_2025_vol st) = Inr (q1_pct_change st)))"
proof (intro conjI allI impI)
  show "q1_diff 1000 1100 = Inr 10" by (simp add: q1_diff_value)
next
  fix w :: world and trips :: "trip list" and c :: nat and v :: "(int option \<times> nat) list"
  assume "all_trips_2025 w = Inr trips"
  then show "\<exists>st. impact_stats_json (snd (run_impact_analysis c v w)) = Some st
            \<and> q1_2024_vol st = get_q1_count (data_files w) 2024
            \<and> q1_2025_vol st = get_q1_count (data_files w) 2025
            \<and> 0 \<le> q1_2024_vol st
            \<and> q1_diff (q1_2024_vol st) (q1_2025_vol st) = Inr (q1_pct_change st)"
    by (simp add: run_impact_analysis_ok(3) get_q1_count_nonneg q1_diff_value)
qed (simp_all add: q1_diff_value)

theorem q1_percent_change_witness:
  "(0::int) < 1000 \<and> q1_diff 1000 1100 = Inr (of_int (1100 - 1000) / of_int 1000 * 100)
   \<and> q1_diff 0 1100 = Inr 0
   \<and> all_trips_2025 leakage_world = Inr (map (view_row yellow) leakage_rows)
   \<and> (\<exists>st. impact_stats_json (snd (run_impact_analysis 0 [] leakage_world)) = Some st
          \<and> q1_2024_vol st = 0 \<and> q1_2025_vol st = 101 \<and> q1_pct_change st = 0)"
proof -
  have a: "get_q1_count (data_files leakage_world) 2024 = 0" by code_simp
  have b: "get_q1_count (data_files leakage_world) 2025 = 101" by code_simp
  from q1_percent_change [of 1000 1100]
  have c: "q1_diff 1000 1100 = Inr (of_int (1100 - 1000) / of_int 1000 * 100)"
    by simp
  from q1_percent_change [of 0 1100] have d: "q1_diff 0 1100 = Inr 0" by simp
  from q1_percent_change [of 0 0] leakage_world_view
  obtain st where st: "impact_stats_json (snd (run_impact_analysis 0 [] leakage_world)) = Some st"
    "q1_2024_vol st = get_q1_count (data_files leakage_world) 2024"
    "q1_2025_vol st = get_q1_count (data_files leakage_world) 2025"
    "q1_diff (q1_2024_vol st) (q1_2025_vol st) = Inr (q1_pct_change st)"
    by blast
  from q1_percent_change [of 0 101] have "q1_diff 0 101 = Inr 0" by simp
  with st a b have "q1_pct_change st = 0" by simp
  with st a b c d leakage_world_view show ?thesis by simp
qed

section \<open>Properties of the imputation\<close>

lemma impute_taxi_existing:
  "data_files w (2025, t, 12) \<noteq> None
     \<Longrightarrow> impute_taxi t w = print ''  -> target already exists.'' w"
  by (simp add: impute_taxi_def)

lemma impute_query_files:
  "data_files (snd (impute_query t w)) k
     = (if k = (2025, t, 12) \<and> fst (impute_query t w) = Inr ()
        then data_files (snd (impute_query t w)) k
        else data_files w k)"
  by (auto simp: impute_query_def sample_rows_def Let_def split_beta
           split: option.splits parquet.splits)

lemma impute_taxi_keeps:
  assumes "data_files w k \<noteq> None"
  shows "data_files (impute_taxi t w) k = data_files w k"
proof (cases "data_files w (2025, t, 12) = None")
  case False
  then show ?thesis by (simp add: impute_taxi_existing)
next
  case True
  with assms have k: "k \<noteq> (2025, t, 12)" by auto
  have "data_files (snd (impute_query t w')) k = data_files w' k" for w'
    using impute_query_files [of t w' k] k by simp
  then show ?thesis
    by (simp add: impute_taxi_def Let_def split: prod.splits sum.splits)
       (metis print_fields(1) snd_conv)
qed

lemma impute_december_data_keeps:
  assumes "data_files w k \<noteq> None"
  shows "data_files (impute_december_data w) k = data_files w k"
  using assms by (simp add: impute_december_data_def TAXI_TYPES_def impute_taxi_keeps)

lemma impute_december_data_existing:
  assumes "\<forall>t \<in> set TAXI_TYPES. data_files w (2025, t, 12) \<noteq> None"
  shows "impute_december_data w
           = w\<lparr>console := console w
                  @ [''  -> target already exists.'', ''  -> target already exists.'']\<rparr>"
  using assms
  by (simp add: impute_december_data_def TAXI_TYPES_def impute_taxi_existing print_def)

text \<open>
  Claim C7.  For a taxi class whose December 2025 file exists, the loop body of
  \<^verbatim>\<open>impute_december_data\<close> only prints a line: no file changes and no random value
  is drawn.  When the file exists for both classes, the whole call changes nothing
  but the console.  A file that exists before a call, source or target, is the same
  after it.  So when a first call has left both targets in place, a second call
  changes nothing but the console.
\<close>

theorem imputation_idempotent:
  "(data_files w (2025, t, 12) \<noteq> None \<longrightarrow>
       impute_taxi t w = print ''  -> target already exists.'' w
     \<and> data_files (impute_taxi t w) = data_files w
     \<and> random_draws (impute_taxi t w) = random_draws w)
   \<and> ((\<forall>t \<in> set TAXI_TYPES. data_files w (2025, t, 12) \<noteq> None) \<longrightarrow>
         impute_december_data w
           = w\<lparr>console := console w
                  @ [''  -> target already exists.'', ''  -> target already exists.'']\<rparr>)
   \<and> (\<forall>k. data_files w k \<noteq> None \<longrightarrow> data_files (impute_december_data w) k = data_files w k)
   \<and> ((\<forall>t \<in> set TAXI_TYPES. data_files (impute_december_data w) (2025, t, 12) \<noteq> None) \<longrightarrow>
         data_files (impute_december_data (impute_december_data w))
           = data_files (impute_december_data w)
       \<and> random_draws (impute_december_data (impute_december_data w))
           = random_draws (impute_december_data w)
       \<and> impute_december_data (impute_december_data w)
           = (impute_december_data w)\<lparr>console := console (impute_december_data w)
                  @ [''  -> target already exists.'', ''  -> target already exists.'']\<rparr>)"
proof (intro conjI allI impI)
  assume h: "data_files w (2025, t, 12) \<noteq> None"
  then show "impute_taxi t w = print ''  -> target already exists.'' w"
    by (rule impute_taxi_existing)
  from h show "data_files (impute_taxi t w) = data_files w"
    by (simp add: impute_taxi_existing)
  from h show "random_draws (impute_taxi t w) = random_draws w"
    by (simp add: impute_taxi_existing)
next
  assume "\<forall>t \<in> set TAXI_TYPES. data_files w (2025, t, 12) \<noteq> None"
  then show "impute_december_data w
           = w\<lparr>console := console w
                  @ [''  -> target already exists.'', ''  -> target already exists.'']\<rparr>"
    by (rule impute_december_data_existing)
next
  fix k assume "data_files w k \<noteq> None"
  then show "data_files (impute_december_data w) k = data_files w k"
    by (rule impute_december_data_keeps)
next
  assume h: "\<forall>t \<in> set TAXI_TYPES. data_files (impute_december_data w) (2025, t, 12) \<noteq> None"
  then show "impute_december_data (impute_december_data w)
           = (impute_december_data w)\<lparr>console := console (impute_december_data w)
                  @ [''  -> target already exists.'', ''  -> target already exists.'']\<rparr>"
    by (rule impute_december_data_existing)
  then show "data_files (impute_december_data (impute_december_data w))
           = data_files (impute_december_data w)"
    by simp
  from h show "random_draws (impute_december_data (impute_december_data w))
           = random_draws (impute_december_data w)"
    by (simp add: impute_december_data_existing)
qed

theorem imputation_idempotent_witness:
  "data_files december_world (2025, yellow, 12) \<noteq> None
   \<and> data_files (impute_taxi yellow december_world) = data_files december_world
   \<and> random_draws (impute_taxi yellow december_world) = random_draws december_world
   \<and> data_files december_world (2025, green, 12) \<noteq> None
   \<and> impute_december_data december_world
       = december_world\<lparr>console := console december_world
           @ [''  -> target already exists.'', ''  -> target already exists.'']\<rparr>
   \<and> data_files sources_world (2024, green, 12) \<noteq> None
   \<and> data_files (impute_december_data sources_world) (2024, green, 12)
       = data_files sources_world (2024, green, 12)
   \<and> data_files sources_world (2025, green, 12) = None
   \<and> data_files (impute_december_data sources_world) (2025, yellow, 12) \<noteq> None
   \<and> data_files (impute_december_data sources_world) (2025, green, 12) \<noteq> None
   \<and> random_draws (impute_december_data sources_world) = 6
   \<and> data_files (impute_december_data (impute_december_data sources_world))
       = data_files (impute_december_data sources_world)
   \<and> random_draws (impute_december_data (impute_december_data sources_world)) = 6"
proof -
  have a: "data_files december_world (2025, yellow, 12) \<noteq> None" by code_simp
  have b: "\<forall>t \<in> set TAXI_TYPES. data_files december_world (2025, t, 12) \<noteq> None" by code_simp
  have c: "data_files sources_world (2024, green, 12) \<noteq> None" by code_simp
  have d: "data_files sources_world (2025, green, 12) = None" by code_simp
  have e: "\<forall>t \<in> set TAXI_TYPES.
             data_files (impute_december_data sources_world) (2025, t, 12) \<noteq> None"
    by code_simp
  have f: "random_draws (impute_december_data sources_world) = 6" by code_simp
  note thm1 = imputation_idempotent [of december_world yellow]
  note thm2 = imputation_idempotent [of sources_world yellow]
  from thm1 a b have
    "data_files (impute_taxi yellow december_world) = data_files december_world"
    "random_draws (impute_taxi yellow december_world) = random_draws december_world"
    "impute_december_data december_world
       = december_world\<lparr>console := console december_world
           @ [''  -> target already exists.'', ''  -> target already exists.'']\<rparr>"
    by blast+
  moreover from thm2 c e have
    "data_files (impute_december_data sources_world) (2024, green, 12)
       = data_files sources_world (2024, green, 12)"
    "data_files (impute_december_data (impute_december_data sources_world))
       = data_files (impute_december_data sources_world)"
    "random_draws (impute_december_data (impute_december_data sources_world))
       = random_draws (impute_december_data sources_world)"
    by blast+
  ultimately show ?thesis using a b c d e f by (simp add: TAXI_TYPES_def)
qed

section \<open>Properties of the control flow\<close>

lemma query_view_no_files:
  assumes "glob_parquet dir 2025 yellow = [] \<or> glob_parquet dir 2025 green = []"
  shows "\<exists>e. query_view dir = Inl e"
  using assms by (auto simp: query_view_def read_parquet_def Let_def split: sum.splits)

lemma run_ghost_trip_audit_no_view:
  assumes "query_view (data_files w) = Inl e"
  shows "run_ghost_trip_audit w =
           (Inr (0, []),
            print ''  -> Error creating view. Are files downloaded?''
              (print ''[PHASE 2] Auditing for Ghost Trips...'' w))"
  using assms by (simp add: run_ghost_trip_audit_def Let_def)

lemma all_trips_2025_cong:
  "data_files w' = data_files w \<Longrightarrow> view_defined w' = view_defined w
     \<Longrightarrow> all_trips_2025 w' = all_trips_2025 w"
  by (simp add: all_trips_2025_def)

lemma all_trips_2025_no_view:
  assumes "query_view (data_files w) = Inl e"
  shows "\<exists>e'. all_trips_2025 w = Inl e'"
  using assms by (simp add: all_trips_2025_def)

lemma run_impact_analysis_raises:
  assumes "all_trips_2025 w = Inl e"
  shows "run_impact_analysis c v w
           = (Inl e, print ''[PHASE 3] Analyzing Congestion Impact...'' w)"
  using assms by (simp add: run_impact_analysis_def revenue_job_def Let_def)

text \<open>
  Claim C8, as stated, fails: with no file of 2025 on disk, \<^verbatim>\<open>run_ghost_trip_audit\<close>
  returns the pair \<open>(0, [])\<close> instead of raising, and \<^verbatim>\<open>main\<close> goes on to print the
  banner of the impact-analysis stage.
\<close>

theorem missing_files_not_a_hard_stop:
  "glob_parquet (data_files year_2024_world) 2025 yellow = []
   \<and> fst (run_ghost_trip_audit year_2024_world) = Inr (0, [])
   \<and> ''[PHASE 3] Analyzing Congestion Impact...''
        \<in> set (console (main example_runtime year_2024_world))"
  by code_simp

text \<open>
  Claim C8, amended.  When no file matches the yellow or the green pattern of 2025,
  \<^verbatim>\<open>run_ghost_trip_audit\<close> catches the error of the view: it prints a line, writes no
  flagged-trip file, creates no view and returns the count 0 with an empty
  leaderboard.  The body of \<^verbatim>\<open>main\<close> then calls \<^verbatim>\<open>run_impact_analysis\<close> with these two
  values, and the banner of that stage is printed.
\<close>

theorem missing_files_audit_returns_zero:
  assumes "glob_parquet (data_files w) 2025 yellow = []
           \<or> glob_parquet (data_files w) 2025 green = []"
  shows "run_ghost_trip_audit w =
           (Inr (0, []),
            print ''  -> Error creating view. Are files downloaded?''
              (print ''[PHASE 2] Auditing for Ghost Trips...'' w))
       \<and> ghost_trip_audit_csv (snd (run_ghost_trip_audit w)) = ghost_trip_audit_csv w
       \<and> view_defined (snd (run_ghost_trip_audit w)) = view_defined w
       \<and> run_stages lib w =
           (case run_impact_analysis 0 [] (snd (run_ghost_trip_audit w)) of
              (Inl e, w2) \<Rightarrow> (Inl e, w2)
            | (Inr u, w2) \<Rightarrow> fetch_weather_and_analyze lib w2)
       \<and> ''[PHASE 3] Analyzing Congestion Impact...'' \<in> set (console (snd (run_stages lib w)))"
proof -
  from assms obtain e where e: "query_view (data_files w) = Inl e"
    using query_view_no_files by blast
  let ?w1 = "print ''  -> Error creating view. Are files downloaded?''
              (print ''[PHASE 2] Auditing for Ghost Trips...'' w)"
  have a: "run_ghost_trip_audit w = (Inr (0, []), ?w1)"
    using e by (rule run_ghost_trip_audit_no_view)
  from e obtain e' where "all_trips_2025 w = Inl e'"
    using all_trips_2025_no_view by blast
  then have "all_trips_2025 ?w1 = Inl e'" by simp
  then have b: "run_impact_analysis 0 [] ?w1
                  = (Inl e', print ''[PHASE 3] Analyzing Congestion Impact...'' ?w1)"
    by (rule run_impact_analysis_raises)
  have c: "run_stages lib w = (Inl e', print ''[PHASE 3] Analyzing Congestion Impact...'' ?w1)"
    by (simp add: run_stages_def a b)
  from a b c show ?thesis by simp
qed

theorem missing_files_audit_returns_zero_witness:
  "(glob_parquet (data_files year_2024_world) 2025 yellow = []
      \<or> glob_parquet (data_files year_2024_world) 2025 green = [])
   \<and> fst (run_ghost_trip_audit year_2024_world) = Inr (0, [])
   \<and> ghost_trip_audit_csv (snd (run_ghost_trip_audit year_2024_world)) = None
   \<and> view_defined (snd (run_ghost_trip_audit year_2024_world)) = False
   \<and> ''[PHASE 3] Analyzing Congestion Impact...''
        \<in> set (console (snd (run_stages example_runtime year_2024_world)))"
proof -
  have h: "glob_parquet (data_files year_2024_world) 2025 yellow = []
      \<or> glob_parquet (data_files year_2024_world) 2025 green = []"
    by code_simp
  have a: "ghost_trip_audit_csv year_2024_world = None" by code_simp
  have b: "view_defined year_2024_world = False" by code_simp
  note t = missing_files_audit_returns_zero [OF h, of example_runtime]
  from t have "run_ghost_trip_audit year_2024_world =
           (Inr (0, []),
            print ''  -> Error creating view. Are files downloaded?''
              (print ''[PHASE 2] Auditing for Ghost Trips...'' year_2024_world))"
    by (rule conjunct1)
  then have r: "fst (run_ghost_trip_audit year_2024_world) = Inr (0, [])" by simp
  from t a have c: "ghost_trip_audit_csv (snd (run_ghost_trip_audit year_2024_world)) = None"
    by metis
  from t b have v: "view_defined (snd (run_ghost_trip_audit year_2024_world)) = False"
    by metis
  from t have p: "''[PHASE 3] Analyzing Congestion Impact...''
        \<in> set (console (snd (run_stages example_runtime year_2024_world)))"
    by blast
  from h r c v p show ?thesis by blast
qed

text \<open>
  Claim C9 at a failing input.  In \<open>year_2024_world\<close> the view does not exist, so the
  leakage query raises.  The query is outside every \<^verbatim>\<open>try\<close>: \<^verbatim>\<open>run_impact_analysis\<close>
  ends with that exception after printing only its banner, and nothing of the Q1
  comparison, the summary record, the velocity tables or the border table is written,
  although \<^verbatim>\<open>export_velocity(2024)\<close> run on the same world writes its table.  \<^verbatim>\<open>main\<close>
  prints the exception as a critical error and never starts the weather stage.
\<close>

theorem leakage_failure_stops_sibling_jobs:
  "all_trips_2025 year_2024_world = Inl CatalogError
   \<and> run_impact_analysis 0 [] year_2024_world
       = (Inl CatalogError, print ''[PHASE 3] Analyzing Congestion Impact...'' year_2024_world)
   \<and> impact_stats_json (snd (run_impact_analysis 0 [] year_2024_world)) = None
   \<and> velocity_csv (snd (run_impact_analysis 0 [] year_2024_world)) 2024 = None
   \<and> velocity_csv (export_velocity 2024 year_2024_world) 2024
       = Some [\<lparr> dow = Some 4, hour = Some 10, avg_speed = Some 24 \<rparr>]
   \<and> console (main example_runtime year_2024_world) =
       [''Starting NYC Congestion Pricing Audit Pipeline (Final)'',
        ''[PHASE 1] Checking Data Availability...'',
        ''  -> Checking for December 2025 Data (Imputation Step)...'',
        ''  -> Generating imputed data for Dec 2025...'',
        ''  -> WARNING: Missing source data for imputation. Skipping'',
        ''  -> Generating imputed data for Dec 2025...'',
        ''  -> WARNING: Missing source data for imputation. Skipping'',
        ''Initializing Database Connection...'',
        ''[PHASE 2] Auditing for Ghost Trips...'',
        ''  -> Error creating view. Are files downloaded?'',
        ''[PHASE 3] Analyzing Congestion Impact...'',
        ''CRITICAL PIPELINE ERROR'',
        ''Pipeline Completed.'']"
proof -
  have a: "all_trips_2025 year_2024_world = Inl CatalogError" by code_simp
  have b: "velocity_csv year_2024_world 2024 = None" by code_simp
  have c: "velocity_csv (export_velocity 2024 year_2024_world) 2024
       = Some [\<lparr> dow = Some 4, hour = Some 10, avg_speed = Some 24 \<rparr>]" by code_simp
  have d: "impact_stats_json year_2024_world = None" by code_simp
  have e: "console (main example_runtime year_2024_world) =
       [''Starting NYC Congestion Pricing Audit Pipeline (Final)'',
        ''[PHASE 1] Checking Data Availability...'',
        ''  -> Checking for December 2025 Data (Imputation Step)...'',
        ''  -> Generating imputed data for Dec 2025...'',
        ''  -> WARNING: Missing source data for imputation. Skipping'',
        ''  -> Generating imputed data for Dec 2025...'',
        ''  -> WARNING: Missing source data for imputation. Skipping'',
        ''Initializing Database Connection...'',
        ''[PHASE 2] Auditing for Ghost Trips...'',
        ''  -> Error creating view. Are files downloaded?'',
        ''[PHASE 3] Analyzing Congestion Impact...'',
        ''CRITICAL PIPELINE ERROR'',
        ''Pipeline Completed.'']" by code_simp
  from a b c d e run_impact_analysis_raises [OF a] show ?thesis by simp
qed

section \<open>Properties of the weather correlation\<close>

lemma fetch_weather_frame [simp]:
  "data_files (fetch_weather lib w) = data_files w"
  "view_defined (fetch_weather lib w) = view_defined w"
  "elasticity_txt (fetch_weather lib w) = elasticity_txt w"
  by (simp_all add: fetch_weather_def split: option.splits)

lemma fetch_weather_cache:
  "weather_cache (fetch_weather lib w)
     = (case weather_cache w of Some x \<Rightarrow> Some x | None \<Rightarrow> weather_api w)"
  by (simp add: fetch_weather_def split: option.splits)

lemma all_trips_2025_fetch_weather [simp]:
  "all_trips_2025 (fetch_weather lib w) = all_trips_2025 w"
  by (simp add: all_trips_2025_def)

lemma elasticity_value:
  assumes "PANDAS_AVAILABLE lib" "SCIPY_AVAILABLE lib"
    "daily_trips_2025_csv w = Some dt" "weather_cache w = Some wx"
  shows "elasticity_txt (elasticity lib w) =
     (if 10 < length (dropna (merge_on_date dt wx))
      then (case linregress_slope lib
                   (map (\<lambda>(d, n, p). the p) (dropna (merge_on_date dt wx)))
                   (map (\<lambda>(d, n, p). of_nat n) (dropna (merge_on_date dt wx))) of
              Inl e \<Rightarrow> elasticity_txt w
            | Inr s \<Rightarrow> Some (series_corr lib
                   (map (\<lambda>(d, n, p). of_nat n) (dropna (merge_on_date dt wx)))
                   (map (\<lambda>(d, n, p). the p) (dropna (merge_on_date dt wx))), s))
      else elasticity_txt w)"
  using assms by (simp add: elasticity_def Let_def split: sum.splits)

text \<open>
  Claim C10, as stated, fails: with both libraries available and exactly 10 joined
  rows, on which the regression would return a slope, no report is written.
\<close>

theorem ten_joined_rows_no_report:
  "PANDAS_AVAILABLE example_runtime \<and> SCIPY_AVAILABLE example_runtime
   \<and> length (df_merge (snd (fetch_weather_and_analyze example_runtime (weather_world 10)))) = 10
   \<and> linregress_slope example_runtime
       (map (\<lambda>(d, n, p). the p)
          (df_merge (snd (fetch_weather_and_analyze example_runtime (weather_world 10)))))
       (map (\<lambda>(d, n, p). of_nat n)
          (df_merge (snd (fetch_weather_and_analyze example_runtime (weather_world 10))))) = Inr 0
   \<and> elasticity_txt (snd (fetch_weather_and_analyze example_runtime (weather_world 10))) = None"
  by code_simp

text \<open>
  Claim C10, amended.  Let both libraries be available, the view be readable, the
  weather table be cached or fetched, and no earlier report be on disk.  Then
  \<^verbatim>\<open>fetch_weather_and_analyze\<close> writes a report exactly when more than 10 joined rows
  remain after the rows with a missing value are dropped and the regression does not
  raise; the report holds the correlation of the trip and precipitation columns and
  the slope of the regression.  With 10 rows or fewer there is no report.
\<close>

theorem elasticity_threshold:
  assumes "PANDAS_AVAILABLE lib" "SCIPY_AVAILABLE lib"
    and "all_trips_2025 w = Inr trips"
    and "(case weather_cache w of Some x \<Rightarrow> Some x | None \<Rightarrow> weather_api w) = Some wx"
    and "elasticity_txt w = None"
  shows "elasticity_txt (snd (fetch_weather_and_analyze lib w)) =
     (if 10 < length (dropna (merge_on_date (daily_trips_query trips) wx))
      then (case linregress_slope lib
                   (map (\<lambda>(d, n, p). the p)
                      (dropna (merge_on_date (daily_trips_query trips) wx)))
                   (map (\<lambda>(d, n, p). of_nat n)
                      (dropna (merge_on_date (daily_trips_query trips) wx))) of
              Inl e \<Rightarrow> None
            | Inr s \<Rightarrow> Some (series_corr lib
                   (map (\<lambda>(d, n, p). of_nat n)
                      (dropna (merge_on_date (daily_trips_query trips) wx)))
                   (map (\<lambda>(d, n, p). the p)
                      (dropna (merge_on_date (daily_trips_query trips) wx))), s))
      else None)"
proof -
  let ?w1 = "fetch_weather lib (print ''[PHASE 4] Weather & Economics...'' w)"
  let ?w3 = "?w1\<lparr>daily_trips_2025_csv := Some (daily_trips_query trips),
                 tips_economics_csv := Some (tips_query trips)\<rparr>"
  have t: "all_trips_2025 ?w1 = Inr trips" using assms(3) by simp
  have "all_trips_2025 (?w1\<lparr>daily_trips_2025_csv := Some (daily_trips_query trips)\<rparr>)
          = all_trips_2025 ?w1"
    by (rule all_trips_2025_cong) simp_all
  with t have t2: "all_trips_2025 (?w1\<lparr>daily_trips_2025_csv := Some (daily_trips_query trips)\<rparr>)
                     = Inr trips"
    by simp
  have r: "snd (fetch_weather_and_analyze lib w) = elasticity lib ?w3"
    using t t2 by (simp add: fetch_weather_and_analyze_def Let_def)
  have d: "daily_trips_2025_csv ?w3 = Some (daily_trips_query trips)" by simp
  have c: "weather_cache ?w3 = Some wx"
    using assms(4) by (simp add: fetch_weather_cache split: option.splits)
  have n: "elasticity_txt ?w3 = None" using assms(5) by simp
  show ?thesis
    unfolding r elasticity_value [OF assms(1,2) d c] n ..
qed

theorem elasticity_threshold_witness:
  "PANDAS_AVAILABLE example_runtime \<and> SCIPY_AVAILABLE example_runtime
   \<and> all_trips_2025 (weather_world 11) = Inr (map (view_row yellow) (daily_rows 11))
   \<and> (case weather_cache (weather_world 11) of Some x \<Rightarrow> Some x
       | None \<Rightarrow> weather_api (weather_world 11)) = Some march_weather
   \<and> elasticity_txt (weather_world 11) = None
   \<and> length (dropna (merge_on_date
         (daily_trips_query (map (view_row yellow) (daily_rows 11))) march_weather)) = 11
   \<and> elasticity_txt (snd (fetch_weather_and_analyze example_runtime (weather_world 11)))
       = Some (0, 0)
   \<and> all_trips_2025 (weather_world 8) = Inr (map (view_row yellow) (daily_rows 8))
   \<and> length (dropna (merge_on_date
         (daily_trips_query (map (view_row yellow) (daily_rows 8))) march_weather)) = 8
   \<and> elasticity_txt (snd (fetch_weather_and_analyze example_runtime (weather_world 8))) = None"
proof -
  have l: "PANDAS_AVAILABLE example_runtime" "SCIPY_AVAILABLE example_runtime"
    by code_simp+
  have v: "all_trips_2025 (weather_world 11) = Inr (map (view_row yellow) (daily_rows 11))"
    by code_simp
  have c: "(case weather_cache (weather_world 11) of Some x \<Rightarrow> Some x
       | None \<Rightarrow> weather_api (weather_world 11)) = Some march_weather"
    by code_simp
  have n: "elasticity_txt (weather_world 11) = None" by code_simp
  have m: "length (dropna (merge_on_date
         (daily_trips_query (map (view_row yellow) (daily_rows 11))) march_weather)) = 11"
    by code_simp
  have s: "linregress_slope example_runtime
             (map (\<lambda>(d, n, p). the p) (dropna (merge_on_date
                (daily_trips_query (map (view_row yellow) (daily_rows 11))) march_weather)))
             (map (\<lambda>(d, n, p). of_nat n) (dropna (merge_on_date
                (daily_trips_query (map (view_row yellow) (daily_rows 11))) march_weather)))
           = Inr 0"
    by code_simp
  have k: "series_corr example_runtime xs ys = 0" for xs ys
    by (simp add: example_runtime_def)
  have r11: "elasticity_txt (snd (fetch_weather_and_analyze example_runtime (weather_world 11)))
       = Some (0, 0)"
    unfolding elasticity_threshold [OF l v c n] by (simp add: m s k)
  have v8: "all_trips_2025 (weather_world 8) = Inr (map (view_row yellow) (daily_rows 8))"
    by code_simp
  have c8: "(case weather_cache (weather_world 8) of Some x \<Rightarrow> Some x
       | None \<Rightarrow> weather_api (weather_world 8)) = Some march_weather"
    by code_simp
  have n8: "elasticity_txt (weather_world 8) = None" by code_simp
  have m8: "length (dropna (merge_on_date
         (daily_trips_query (map (view_row yellow) (daily_rows 8))) march_weather)) = 8"
    by code_simp
  have r8: "elasticity_txt (snd (fetch_weather_and_analyze example_runtime (weather_world 8)))
       = None"
    unfolding elasticity_threshold [OF l v8 c8 n8] by (simp add: m8)
  from l v c n m r11 v8 m8 r8 show ?thesis by blast
qed

end
